theory Spec2Isabelle
  imports Main
begin

section \<open>Python strings and integer parsing\<close>

text \<open>
  Text is modelled as \<^typ>\<open>string\<close> and stands for ASCII text, which is what the
  interactive prompts of \<^verbatim>\<open>bookstore.py\<close> receive. Python integers are unbounded
  and are modelled by \<^typ>\<open>int\<close>.
\<close>

text \<open>\<^verbatim>\<open>s.count(c)\<close> for a one-character pattern.\<close>

definition py_count :: "string \<Rightarrow> char \<Rightarrow> nat" where
  "py_count s c = length (filter (\<lambda>x. x = c) s)"

text \<open>\<^verbatim>\<open>s.split(c)\<close> with an explicit one-character separator: empty tokens are kept.\<close>

fun py_split :: "char \<Rightarrow> string \<Rightarrow> string list" where
  "py_split c [] = [[]]"
| "py_split c (x # xs) =
     (if x = c then [] # py_split c xs
      else (case py_split c xs of
              t # ts \<Rightarrow> (x # t) # ts
            | [] \<Rightarrow> [[x]]))"

text \<open>
  \<^verbatim>\<open>int(s)\<close> on a string, base ten: surrounding ASCII white space is dropped, one
  sign is allowed, then digits, where a single underscore may stand between two digits.
  \<open>None\<close> stands for \<^verbatim>\<open>ValueError\<close>. The interpreter's limit on the number of
  digits is not modelled.
\<close>

definition is_space :: "char \<Rightarrow> bool" where
  "is_space c = (c \<in> set [CHR '' '', CHR 0x09, CHR 0x0A, CHR 0x0B, CHR 0x0C, CHR 0x0D])"

definition is_digit :: "char \<Rightarrow> bool" where
  "is_digit c = (c \<in> set ''0123456789'')"

definition digit_val :: "char \<Rightarrow> int" where
  "digit_val c = int (of_char c) - 48"

fun parse_digits :: "int \<Rightarrow> string \<Rightarrow> int option" where
  "parse_digits acc [] = Some acc"
| "parse_digits acc [c] = (if is_digit c then Some (10 * acc + digit_val c) else None)"
| "parse_digits acc (c # d # ds) =
     (if is_digit c then parse_digits (10 * acc + digit_val c) (d # ds)
      else if c = CHR ''_'' \<and> is_digit d then parse_digits (10 * acc + digit_val d) ds
      else None)"

definition strip :: "string \<Rightarrow> string" where
  "strip s = rev (dropWhile is_space (rev (dropWhile is_space s)))"

definition parse_unsigned :: "string \<Rightarrow> int option" where
  "parse_unsigned s =
     (case s of
        [] \<Rightarrow> None
      | d # ds \<Rightarrow> if is_digit d then parse_digits (digit_val d) ds else None)"

definition py_int :: "string \<Rightarrow> int option" where
  "py_int s =
     (case strip s of
        [] \<Rightarrow> None
      | c # cs \<Rightarrow>
          if c = CHR ''-'' then map_option uminus (parse_unsigned cs)
          else if c = CHR ''+'' then parse_unsigned cs
          else parse_unsigned (c # cs))"

text \<open>
  \<^verbatim>\<open>s.strip()\<close> and \<^verbatim>\<open>s.lower()\<close> on ASCII text. Unlike \<^verbatim>\<open>int\<close>,
  \<^verbatim>\<open>str.strip\<close> also counts the four separator controls 0x1C to 0x1F as white space.
\<close>

definition is_str_space :: "char \<Rightarrow> bool" where
  "is_str_space c = (is_space c \<or> c \<in> set [CHR 0x1C, CHR 0x1D, CHR 0x1E, CHR 0x1F])"

definition py_strip :: "string \<Rightarrow> string" where
  "py_strip s = rev (dropWhile is_str_space (rev (dropWhile is_str_space s)))"

definition lower_char :: "char \<Rightarrow> char" where
  "lower_char c =
     (if c \<in> set ''ABCDEFGHIJKLMNOPQRSTUVWXYZ'' then char_of (of_char c + (32::nat)) else c)"

definition py_lower :: "string \<Rightarrow> string" where
  "py_lower s = map lower_char s"

section \<open>The date validator\<close>

text \<open>
  \<^verbatim>\<open>validate_date\<close>, lines 12 to 22. Unpacking \<^verbatim>\<open>map(int, ...)\<close> into three names
  parses every token before the range test is reached; a token that is no integer, or a
  token count other than three, raises \<^verbatim>\<open>ValueError\<close>, which the function answers
  with \<open>False\<close>.
\<close>

definition validate_date :: "string \<Rightarrow> bool" where
  "validate_date date_str =
     (if length date_str \<noteq> 10 \<or> py_count date_str (CHR ''-'') \<noteq> 2 then False
      else (case map py_int (py_split (CHR ''-'') date_str) of
              [Some year, Some month, Some day] \<Rightarrow>
                if month < 1 \<or> month > 12 \<or> day < 1 \<or> day > 31 then False else True
            | _ \<Rightarrow> False))"

text \<open>
  The contract of the validator in the words of the specification (section 4.1): ten
  characters, two hyphens, three integer tokens, month within 1..12, day within 1..31.
\<close>

definition date_contract :: "string \<Rightarrow> bool" where
  "date_contract s =
     (let toks = py_split (CHR ''-'') s in
        length s = 10 \<and> py_count s (CHR ''-'') = 2 \<and> length toks = 3 \<and>
        list_all (\<lambda>t. py_int t \<noteq> None) toks \<and>
        1 \<le> the (py_int (toks ! 1)) \<and> the (py_int (toks ! 1)) \<le> 12 \<and>
        1 \<le> the (py_int (toks ! 2)) \<and> the (py_int (toks ! 2)) \<le> 31)"

section \<open>The store\<close>

text \<open>
  Modelled from the spec: the schema is not created by the program and is not part of
  the source. Section 6 of the specification gives it as
  \<^verbatim>\<open>member(mid PK, mname)\<close>, \<^verbatim>\<open>book(bid PK, btitle, bprice, bstock)\<close> and
  \<^verbatim>\<open>sale(sid PK autoincrement, sdate, mid FK, bid FK, sqty, sdiscount, stotal)\<close>.
  Keys and text columns hold strings, amounts and counts hold integers, and a table is
  the list of its rows. The columns \<^verbatim>\<open>mid\<close> and \<^verbatim>\<open>bid\<close> of a sale are named
  \<open>sale_mid\<close> and \<open>sale_bid\<close> here. For the \<^verbatim>\<open>autoincrement\<close> key the store
  keeps, beside the tables, the largest sale identifier it ever assigned (\<open>sale_seq\<close>,
  0 before the first sale); it is part of the database and of every transaction.
\<close>

record member_row =
  mid :: string
  mname :: string

record book_row =
  bid :: string
  btitle :: string
  bprice :: int
  bstock :: int

record sale_row =
  sid :: int
  sdate :: string
  sale_mid :: string
  sale_bid :: string
  sqty :: int
  sdiscount :: int
  stotal :: int

record db =
  member_tbl :: "member_row list"
  book_tbl :: "book_row list"
  sale_tbl :: "sale_row list"
  sale_seq :: int

text \<open>
  Modelled from the spec: the primary keys of the schema. The program never checks
  them; the store enforces them.
\<close>

definition primary_keys :: "db \<Rightarrow> bool" where
  "primary_keys d =
     (distinct (map mid (member_tbl d)) \<and> distinct (map bid (book_tbl d)) \<and>
      distinct (map sid (sale_tbl d)))"

text \<open>
  Modelled from the spec: a new sale gets an identifier the store assigns itself, one
  above the largest identifier that is in the table or was ever assigned. An identifier
  is never used twice, also not after its row was deleted.
\<close>

definition next_sid :: "db \<Rightarrow> int" where
  "next_sid d = max (sale_seq d) (fold max (map sid (sale_tbl d)) 0) + 1"

text \<open>
  The store holds 64-bit integers. \<^verbatim>\<open>conn.execute\<close> raises \<^verbatim>\<open>OverflowError\<close>
  when it is given a Python integer outside that range as a parameter. The tables of
  the model may hold any integer, and the arithmetic of the store's own statements is
  exact.
\<close>

definition sqlite_int :: "int \<Rightarrow> bool" where
  "sqlite_int n = (- (2 ^ 63) \<le> n \<and> n < 2 ^ 63)"

text \<open>\<^verbatim>\<open>cursor.fetchone()\<close>: the first row of a result, or \<^verbatim>\<open>None\<close>.\<close>

definition fetchone :: "'a list \<Rightarrow> 'a option" where
  "fetchone rows = (case rows of [] \<Rightarrow> None | r # _ \<Rightarrow> Some r)"

subsection \<open>The statements of the program\<close>

text \<open>Line 27: \<^verbatim>\<open>SELECT mname FROM member WHERE mid = ?\<close>.\<close>

definition select_mname :: "db \<Rightarrow> string \<Rightarrow> string list" where
  "select_mname d m = [mname r. r \<leftarrow> member_tbl d, mid r = m]"

text \<open>Line 34: \<^verbatim>\<open>SELECT btitle, bprice, bstock FROM book WHERE bid = ?\<close>.\<close>

definition select_book :: "db \<Rightarrow> string \<Rightarrow> (string \<times> int \<times> int) list" where
  "select_book d b = [(btitle r, bprice r, bstock r). r \<leftarrow> book_tbl d, bid r = b]"

text \<open>Lines 95 to 98: \<^verbatim>\<open>INSERT INTO sale (sdate, mid, bid, sqty, sdiscount, stotal)\<close>.\<close>

definition insert_sale :: "string \<Rightarrow> string \<Rightarrow> string \<Rightarrow> int \<Rightarrow> int \<Rightarrow> int \<Rightarrow> db \<Rightarrow> db" where
  "insert_sale sd m b q dsc tot d =
     d\<lparr>sale_tbl := sale_tbl d @
        [\<lparr>sid = next_sid d, sdate = sd, sale_mid = m, sale_bid = b,
          sqty = q, sdiscount = dsc, stotal = tot\<rparr>],
       sale_seq := next_sid d\<rparr>"

text \<open>Lines 101 to 104: \<^verbatim>\<open>UPDATE book SET bstock = bstock - ? WHERE bid = ?\<close>.\<close>

definition decrease_stock :: "int \<Rightarrow> string \<Rightarrow> db \<Rightarrow> db" where
  "decrease_stock q b d =
     d\<lparr>book_tbl := map (\<lambda>r. if bid r = b then r\<lparr>bstock := bstock r - q\<rparr> else r) (book_tbl d)\<rparr>"

text \<open>Lines 285 to 289: \<^verbatim>\<open>UPDATE book SET bstock = bstock + ? WHERE bid = ?\<close>.\<close>

definition increase_stock :: "int \<Rightarrow> string \<Rightarrow> db \<Rightarrow> db" where
  "increase_stock q b d =
     d\<lparr>book_tbl := map (\<lambda>r. if bid r = b then r\<lparr>bstock := bstock r + q\<rparr> else r) (book_tbl d)\<rparr>"

text \<open>
  Lines 122 to 129: the report query, sales joined with their member and their book,
  ordered by sale id. The columns are \<^verbatim>\<open>sid, sdate, mname, btitle, bprice, sqty,
  sdiscount, stotal\<close>.
\<close>

type_synonym report_row = "int \<times> string \<times> string \<times> string \<times> int \<times> int \<times> int \<times> int"

definition select_report :: "db \<Rightarrow> report_row list" where
  "select_report d =
     [(sid s, sdate s, mname m, btitle b, bprice b, sqty s, sdiscount s, stotal s).
        s \<leftarrow> sort_key sid (sale_tbl d),
        m \<leftarrow> member_tbl d, mid m = sale_mid s,
        b \<leftarrow> book_tbl d, bid b = sale_bid s]"

text \<open>Lines 162 to 167: sales joined with their member, ordered by sale id.\<close>

type_synonym list_row = "int \<times> string \<times> string"

definition select_list :: "db \<Rightarrow> list_row list" where
  "select_list d =
     [(sid s, sdate s, mname m).
        s \<leftarrow> sort_key sid (sale_tbl d),
        m \<leftarrow> member_tbl d, mid m = sale_mid s]"

text \<open>
  Lines 212 to 217: \<^verbatim>\<open>SELECT s.sqty, b.bprice FROM sale s JOIN book b ON s.bid = b.bid
  WHERE s.sid = ?\<close>.
\<close>

definition select_qty_price :: "db \<Rightarrow> int \<Rightarrow> (int \<times> int) list" where
  "select_qty_price d i =
     [(sqty s, bprice b). s \<leftarrow> sale_tbl d, sid s = i, b \<leftarrow> book_tbl d, bid b = sale_bid s]"

text \<open>Lines 227 to 231: \<^verbatim>\<open>UPDATE sale SET sdiscount = ?, stotal = ? WHERE sid = ?\<close>.\<close>

definition set_discount :: "int \<Rightarrow> int \<Rightarrow> int \<Rightarrow> db \<Rightarrow> db" where
  "set_discount dsc tot i d =
     d\<lparr>sale_tbl := map (\<lambda>s. if sid s = i then s\<lparr>sdiscount := dsc, stotal := tot\<rparr> else s)
                      (sale_tbl d)\<rparr>"

text \<open>Lines 278 to 280: \<^verbatim>\<open>SELECT bid, sqty FROM sale WHERE sid = ?\<close>.\<close>

definition select_bid_qty :: "db \<Rightarrow> int \<Rightarrow> (string \<times> int) list" where
  "select_bid_qty d i = [(sale_bid s, sqty s). s \<leftarrow> sale_tbl d, sid s = i]"

text \<open>Lines 292 to 294: \<^verbatim>\<open>DELETE FROM sale WHERE sid = ?\<close>.\<close>

definition delete_sale_row :: "int \<Rightarrow> db \<Rightarrow> db" where
  "delete_sale_row i d = d\<lparr>sale_tbl := filter (\<lambda>s. sid s \<noteq> i) (sale_tbl d)\<rparr>"

section \<open>Effects: exceptions, the terminal, the connection\<close>

text \<open>
  The exceptions the program can meet. \<open>OperationalError\<close> stands for any
  \<^verbatim>\<open>sqlite3.Error\<close> the storage layer raises by itself; \<open>ProgrammingError\<close> is
  the \<^verbatim>\<open>sqlite3.Error\<close> raised when the number of supplied parameters differs from
  the number of placeholders of a statement. \<open>OverflowError\<close> is raised for an
  integer parameter outside the 64-bit range; it is an \<^verbatim>\<open>Exception\<close> but neither a
  \<^verbatim>\<open>sqlite3.Error\<close> nor a \<^verbatim>\<open>ValueError\<close>.
\<close>

datatype py_exn = ValueError | EOFError | OperationalError | ProgrammingError | OverflowError

definition is_sqlite_error :: "py_exn \<Rightarrow> bool" where
  "is_sqlite_error e = (e = OperationalError \<or> e = ProgrammingError)"

text \<open>
  What the program writes. The source prints Chinese text; each constructor stands for
  one \<^verbatim>\<open>print\<close> call or one prompt of \<^verbatim>\<open>input\<close>, named after what it says, with
  the values it interpolates. \<open>SaleReport\<close> stands for the block of lines 137 to 149.
\<close>

datatype prompt =
    AskDate | AskMember | AskBook | AskQty | AskDiscount
  | AskUpdateChoice | AskNewDiscount | AskDeleteChoice | AskConfirm int | AskMenu

datatype msg =
    Prompt prompt
  | ErrDateFormat | ErrNoMember | ErrNoBook
  | ErrQtyNotPositive | ErrQtyNotInt | ErrStock int
  | ErrDiscountNegative | ErrDiscountNotInt
  | SaleAdded int
  | DbError py_exn | OtherError py_exn
  | NoSaleRecords | SaleReport report_row
  | NoSalesToUpdate | NoSalesToDelete
  | ListHeader | ListLine nat int string string | ListFooter
  | ErrInvalidNumber | ErrSaleNotFound
  | SaleUpdated int int
  | DeleteCancelled | SaleDeleted int
  | Menu | ErrMenuChoice | DbConnectError py_exn | ProgramEnd

text \<open>
  The connection holds the committed content of the database file, the content as this
  connection sees it, and whether a transaction is open. The world adds the lines still
  to be typed, the text written so far, and the schedule of storage failures: each call
  into the storage layer takes the next flag and raises when it is set.
\<close>

record conn =
  committed :: db
  working :: db
  in_tx :: bool

record world =
  db_conn :: conn
  stdin :: "string list"
  stdout :: "msg list"
  faults :: "bool list"

type_synonym 'a prog = "world \<Rightarrow> (py_exn + 'a) \<times> world"

definition ret :: "'a \<Rightarrow> 'a prog" where
  "ret x = (\<lambda>w. (Inr x, w))"

definition raise :: "py_exn \<Rightarrow> 'a prog" where
  "raise e = (\<lambda>w. (Inl e, w))"

definition bnd :: "'a prog \<Rightarrow> ('a \<Rightarrow> 'b prog) \<Rightarrow> 'b prog" where
  "bnd m f = (\<lambda>w. case m w of (Inl e, w') \<Rightarrow> (Inl e, w') | (Inr x, w') \<Rightarrow> f x w')"

text \<open>
  \<^verbatim>\<open>try: body except ...\<close>: the handler names the clause that catches an exception,
  and \<open>None\<close> lets it propagate.
\<close>

definition try_except :: "'a prog \<Rightarrow> (py_exn \<Rightarrow> 'a prog option) \<Rightarrow> 'a prog" where
  "try_except body handler =
     (\<lambda>w. case body w of
             (Inl e, w') \<Rightarrow> (case handler e of None \<Rightarrow> (Inl e, w') | Some h \<Rightarrow> h w')
           | (Inr x, w') \<Rightarrow> (Inr x, w'))"

definition print :: "msg \<Rightarrow> unit prog" where
  "print m = (\<lambda>w. (Inr (), w\<lparr>stdout := stdout w @ [m]\<rparr>))"

fun print_all :: "msg list \<Rightarrow> unit prog" where
  "print_all [] = ret ()"
| "print_all (m # ms) = bnd (print m) (\<lambda>_. print_all ms)"

text \<open>\<^verbatim>\<open>input(prompt)\<close> writes the prompt and reads a line; at end of input it raises.\<close>

definition input :: "prompt \<Rightarrow> string prog" where
  "input p =
     (\<lambda>w. case stdin w of
             [] \<Rightarrow> (Inl EOFError, w\<lparr>stdout := stdout w @ [Prompt p]\<rparr>)
           | l # ls \<Rightarrow> (Inr l, w\<lparr>stdin := ls, stdout := stdout w @ [Prompt p]\<rparr>))"

subsection \<open>Calls into the storage layer\<close>

definition storage_call :: "unit prog" where
  "storage_call =
     (\<lambda>w. case faults w of
             [] \<Rightarrow> (Inr (), w)
           | f # fs \<Rightarrow> ((if f then Inl OperationalError else Inr ()), w\<lparr>faults := fs\<rparr>))"

text \<open>A read: \<^verbatim>\<open>cursor.execute\<close> of a \<^verbatim>\<open>SELECT\<close>, which may itself raise.\<close>

definition query :: "(db \<Rightarrow> py_exn + 'a) \<Rightarrow> 'a prog" where
  "query q =
     bnd storage_call (\<lambda>_ w. (case q (working (db_conn w)) of
                                 Inl e \<Rightarrow> (Inl e, w)
                               | Inr x \<Rightarrow> (Inr x, w)))"

text \<open>
  A write: \<^verbatim>\<open>conn.execute\<close> of an \<^verbatim>\<open>INSERT\<close>, \<^verbatim>\<open>UPDATE\<close> or \<^verbatim>\<open>DELETE\<close>. The
  connection keeps Python's default transaction control, which opens a transaction
  before such a statement when none is open.
\<close>

definition execute :: "(db \<Rightarrow> db) \<Rightarrow> unit prog" where
  "execute f =
     bnd storage_call (\<lambda>_ w.
       (Inr (), w\<lparr>db_conn := (db_conn w)\<lparr>working := f (working (db_conn w)), in_tx := True\<rparr>\<rparr>))"

text \<open>
  A write with integer parameters that the program read from the terminal or computed:
  the parameters are bound before the statement runs, and an integer outside the
  64-bit range raises there. Integers that the program read from the store are within
  the range and are not listed.
\<close>

definition execute_bound :: "int list \<Rightarrow> (db \<Rightarrow> db) \<Rightarrow> unit prog" where
  "execute_bound params f =
     (if list_all sqlite_int params then execute f else raise OverflowError)"

text \<open>\<^verbatim>\<open>conn.execute("BEGIN TRANSACTION")\<close>: refused inside an open transaction.\<close>

definition begin_transaction :: "unit prog" where
  "begin_transaction =
     bnd storage_call (\<lambda>_ w.
       if in_tx (db_conn w) then (Inl OperationalError, w)
       else (Inr (), w\<lparr>db_conn := (db_conn w)\<lparr>in_tx := True\<rparr>\<rparr>))"

text \<open>
  \<^verbatim>\<open>conn.commit()\<close> and \<^verbatim>\<open>conn.rollback()\<close> do nothing when no transaction is
  open. A rollback restores the committed content; it is taken not to fail.
\<close>

definition commit :: "unit prog" where
  "commit =
     (\<lambda>w. if in_tx (db_conn w)
           then bnd storage_call (\<lambda>_ w.
                  (Inr (), w\<lparr>db_conn := (db_conn w)\<lparr>committed := working (db_conn w),
                                                     in_tx := False\<rparr>\<rparr>)) w
           else (Inr (), w))"

definition rollback :: "unit prog" where
  "rollback =
     (\<lambda>w. if in_tx (db_conn w)
           then (Inr (), w\<lparr>db_conn := (db_conn w)\<lparr>working := committed (db_conn w),
                                                   in_tx := False\<rparr>\<rparr>)
           else (Inr (), w))"

text \<open>A fresh connection to a database file with content \<open>d\<close>, and a world around it.\<close>

definition connect_db :: "db \<Rightarrow> conn" where
  "connect_db d = \<lparr>committed = d, working = d, in_tx = False\<rparr>"

definition start :: "db \<Rightarrow> string list \<Rightarrow> bool list \<Rightarrow> world" where
  "start d ins fs = \<lparr>db_conn = connect_db d, stdin = ins, stdout = [], faults = fs\<rparr>"

section \<open>The lookup helpers\<close>

text \<open>
  \<^verbatim>\<open>get_member_name\<close>, lines 24 to 29; the parameters are the tuple \<^verbatim>\<open>(mid,)\<close>.
\<close>

definition get_member_name :: "db \<Rightarrow> string \<Rightarrow> py_exn + string option" where
  "get_member_name d m = Inr (fetchone (select_mname d m))"

text \<open>
  \<^verbatim>\<open>get_book_info\<close>, lines 31 to 42. The parameters are written \<^verbatim>\<open>(bid)\<close>, which is
  the string itself and not a tuple: the store takes each character as one parameter,
  raises \<^verbatim>\<open>ProgrammingError\<close> unless the string has exactly one character, the number
  of placeholders, and binds that character otherwise.
\<close>

definition get_book_info :: "db \<Rightarrow> string \<Rightarrow> py_exn + (string \<times> int \<times> int) option" where
  "get_book_info d b =
     (if length b \<noteq> 1 then Inl ProgrammingError
      else Inr (fetchone (select_book d [b ! 0])))"

text \<open>Truth value of an optional string: \<^verbatim>\<open>None\<close> and the empty string are false.\<close>

definition truthy :: "string option \<Rightarrow> bool" where
  "truthy v = (case v of None \<Rightarrow> False | Some s \<Rightarrow> s \<noteq> [])"

section \<open>Creating a sale\<close>

text \<open>Lines 91 to 109: the transaction of \<^verbatim>\<open>add_sale\<close>.\<close>

definition add_sale_tx :: "string \<Rightarrow> string \<Rightarrow> string \<Rightarrow> int \<Rightarrow> int \<Rightarrow> int \<Rightarrow> unit prog" where
  "add_sale_tx sd m b q dsc tot =
     bnd begin_transaction (\<lambda>_.
     bnd (execute_bound [q, dsc, tot] (insert_sale sd m b q dsc tot)) (\<lambda>_.
     bnd (execute_bound [q] (decrease_stock q b)) (\<lambda>_.
     bnd commit (\<lambda>_.
     print (SaleAdded tot)))))"

text \<open>Lines 46 to 109: the body of the \<^verbatim>\<open>try\<close> statement of \<^verbatim>\<open>add_sale\<close>.\<close>

definition add_sale_body :: "unit prog" where
  "add_sale_body =
     bnd (input AskDate) (\<lambda>sd.
     if \<not> validate_date sd then print ErrDateFormat else
     bnd (input AskMember) (\<lambda>m.
     bnd (query (\<lambda>d. get_member_name d m)) (\<lambda>name.
     if \<not> truthy name then print ErrNoMember else
     bnd (input AskBook) (\<lambda>b.
     bnd (query (\<lambda>d. get_book_info d b)) (\<lambda>book_info.
     case book_info of
       None \<Rightarrow> print ErrNoBook
     | Some (title, price, stock) \<Rightarrow>
     bnd (input AskQty) (\<lambda>qs.
     case py_int qs of
       None \<Rightarrow> print ErrQtyNotInt
     | Some q \<Rightarrow>
     if q \<le> 0 then print ErrQtyNotPositive else
     if stock < q then print (ErrStock stock) else
     bnd (input AskDiscount) (\<lambda>ds.
     case py_int ds of
       None \<Rightarrow> print ErrDiscountNotInt
     | Some dsc \<Rightarrow>
     if dsc < 0 then print ErrDiscountNegative else
     add_sale_tx sd m b q dsc (price * q - dsc))))))))"

text \<open>
  \<^verbatim>\<open>add_sale\<close>, lines 44 to 116: the first \<^verbatim>\<open>except\<close> clause catches
  \<^verbatim>\<open>sqlite3.Error\<close>, the second every other \<^verbatim>\<open>Exception\<close>; both roll back and
  print, so no exception of the model leaves the function.
\<close>

definition add_sale :: "unit prog" where
  "add_sale =
     try_except add_sale_body
       (\<lambda>e. if is_sqlite_error e then Some (bnd rollback (\<lambda>_. print (DbError e)))
            else Some (bnd rollback (\<lambda>_. print (OtherError e))))"

section \<open>Reporting and listing\<close>

text \<open>
  \<^verbatim>\<open>print_sale_report\<close>, lines 118 to 152. Only \<^verbatim>\<open>sqlite3.Error\<close> is caught.
\<close>

definition print_sale_report :: "unit prog" where
  "print_sale_report =
     try_except
       (bnd (query (\<lambda>d. Inr (select_report d))) (\<lambda>sales.
        if sales = [] then print NoSaleRecords
        else print_all (map SaleReport sales)))
       (\<lambda>e. if is_sqlite_error e then Some (print (DbError e)) else None)"

text \<open>
  \<^verbatim>\<open>list_sales\<close>, lines 154 to 171: a failing read is reported and answered with the
  empty list.
\<close>

definition list_sales :: "list_row list prog" where
  "list_sales =
     try_except (query (\<lambda>d. Inr (select_list d)))
       (\<lambda>e. if is_sqlite_error e then Some (bnd (print (DbError e)) (\<lambda>_. ret [])) else None)"

text \<open>
  Lines 180 to 183 and 250 to 253: the numbered selection list, counted from 1.
\<close>

definition list_lines :: "list_row list \<Rightarrow> msg list" where
  "list_lines sales =
     map (\<lambda>(i, (s, dt, nm)). ListLine i s nm dt) (zip [1 ..< Suc (length sales)] sales)"

definition print_selection :: "list_row list \<Rightarrow> unit prog" where
  "print_selection sales =
     bnd (print ListHeader) (\<lambda>_.
     bnd (print_all (list_lines sales)) (\<lambda>_.
     print ListFooter))"

text \<open>
  The \<^verbatim>\<open>except\<close> clauses shared by \<^verbatim>\<open>update_sale\<close> (lines 237 to 241) and
  \<^verbatim>\<open>delete_sale\<close> (lines 301 to 305): \<^verbatim>\<open>ValueError\<close> is reported, a
  \<^verbatim>\<open>sqlite3.Error\<close> rolls back and is reported, anything else propagates: there is
  no clause for \<^verbatim>\<open>Exception\<close> as \<^verbatim>\<open>add_sale\<close> has one.
\<close>

definition selection_handler :: "py_exn \<Rightarrow> unit prog option" where
  "selection_handler e =
     (if e = ValueError then Some (print ErrInvalidNumber)
      else if is_sqlite_error e then Some (bnd rollback (\<lambda>_. print (DbError e)))
      else None)"

section \<open>Updating a sale\<close>

text \<open>Lines 207 to 235: the transaction of \<^verbatim>\<open>update_sale\<close>.\<close>

definition update_sale_tx :: "int \<Rightarrow> int \<Rightarrow> unit prog" where
  "update_sale_tx i new_discount =
     bnd begin_transaction (\<lambda>_.
     bnd (query (\<lambda>d. Inr (fetchone (select_qty_price d i)))) (\<lambda>sale_info.
     case sale_info of
       None \<Rightarrow> bnd (print ErrSaleNotFound) (\<lambda>_. rollback)
     | Some (q, price) \<Rightarrow>
         bnd (execute_bound [new_discount, price * q - new_discount]
                (set_discount new_discount (price * q - new_discount) i)) (\<lambda>_.
         bnd commit (\<lambda>_.
         print (SaleUpdated i (price * q - new_discount))))))"

text \<open>Lines 189 to 235: the body of the \<^verbatim>\<open>try\<close> statement of \<^verbatim>\<open>update_sale\<close>.\<close>

definition update_sale_body :: "list_row list \<Rightarrow> string \<Rightarrow> unit prog" where
  "update_sale_body sales choice =
     (case py_int choice of
        None \<Rightarrow> raise ValueError
      | Some c \<Rightarrow>
          if c < 1 \<or> c > int (length sales) then print ErrInvalidNumber else
          bnd (input AskNewDiscount) (\<lambda>ds.
          case py_int ds of
            None \<Rightarrow> print ErrDiscountNotInt
          | Some new_discount \<Rightarrow>
              if new_discount < 0 then print ErrDiscountNegative
              else update_sale_tx (fst (sales ! nat (c - 1))) new_discount))"

text \<open>\<^verbatim>\<open>update_sale\<close>, lines 173 to 241.\<close>

definition update_sale :: "unit prog" where
  "update_sale =
     bnd list_sales (\<lambda>sales.
     if sales = [] then print NoSalesToUpdate else
     bnd (print_selection sales) (\<lambda>_.
     bnd (input AskUpdateChoice) (\<lambda>choice.
     if choice = [] then ret ()
     else try_except (update_sale_body sales choice) selection_handler)))"

section \<open>Deleting a sale\<close>

text \<open>Lines 273 to 299: the transaction of \<^verbatim>\<open>delete_sale\<close>.\<close>

definition delete_sale_tx :: "int \<Rightarrow> unit prog" where
  "delete_sale_tx i =
     bnd begin_transaction (\<lambda>_.
     bnd (query (\<lambda>d. Inr (fetchone (select_bid_qty d i)))) (\<lambda>sale_info.
     bnd (case sale_info of
            None \<Rightarrow> ret ()
          | Some (b, q) \<Rightarrow>
              bnd (execute (increase_stock q b)) (\<lambda>_.
              execute (delete_sale_row i))) (\<lambda>_.
     bnd commit (\<lambda>_.
     print (SaleDeleted i)))))"

text \<open>Lines 259 to 299: the body of the \<^verbatim>\<open>try\<close> statement of \<^verbatim>\<open>delete_sale\<close>.\<close>

definition delete_sale_body :: "list_row list \<Rightarrow> string \<Rightarrow> unit prog" where
  "delete_sale_body sales choice =
     (case py_int choice of
        None \<Rightarrow> raise ValueError
      | Some c \<Rightarrow>
          if c < 1 \<or> c > int (length sales) then print ErrInvalidNumber else
          bnd (input (AskConfirm (fst (sales ! nat (c - 1))))) (\<lambda>confirm.
          if py_lower confirm \<noteq> ''y'' then print DeleteCancelled
          else delete_sale_tx (fst (sales ! nat (c - 1)))))"

text \<open>\<^verbatim>\<open>delete_sale\<close>, lines 243 to 305.\<close>

definition delete_sale :: "unit prog" where
  "delete_sale =
     bnd list_sales (\<lambda>sales.
     if sales = [] then print NoSalesToDelete else
     bnd (print_selection sales) (\<lambda>_.
     bnd (input AskDeleteChoice) (\<lambda>choice.
     if choice = [] then ret ()
     else try_except (delete_sale_body sales choice) selection_handler)))"

section \<open>The menu\<close>

text \<open>
  One round of the loop of \<^verbatim>\<open>main\<close>, lines 312 to 335: \<open>True\<close> when the loop goes
  on to another round, \<open>False\<close> at \<^verbatim>\<open>break\<close>.
\<close>

definition menu_round :: "bool prog" where
  "menu_round =
     bnd (print Menu) (\<lambda>_.
     bnd (input AskMenu) (\<lambda>line.
     let choice = py_strip line in
     if choice = [] then ret False
     else if choice = ''1'' then bnd add_sale (\<lambda>_. ret True)
     else if choice = ''2'' then bnd print_sale_report (\<lambda>_. ret True)
     else if choice = ''3'' then bnd update_sale (\<lambda>_. ret True)
     else if choice = ''4'' then bnd delete_sale (\<lambda>_. ret True)
     else if choice = ''5'' then ret False
     else bnd (print ErrMenuChoice) (\<lambda>_. ret True)))"

section \<open>Example data\<close>

text \<open>
  A shop with one member and two books, one under a two-character identifier and one
  under a one-character identifier, before any sale, after three copies of the
  second book were sold with a discount of 50, and after that discount was changed to 20.
\<close>

definition sample_db :: db where
  "sample_db =
     \<lparr>member_tbl = [\<lparr>mid = ''M1'', mname = ''Ann''\<rparr>],
      book_tbl = [\<lparr>bid = ''B1'', btitle = ''Logic'', bprice = 100, bstock = 10\<rparr>,
                  \<lparr>bid = ''7'', btitle = ''Sets'', bprice = 100, bstock = 10\<rparr>],
      sale_tbl = [],
      sale_seq = 0\<rparr>"

definition sold_db :: db where
  "sold_db =
     \<lparr>member_tbl = [\<lparr>mid = ''M1'', mname = ''Ann''\<rparr>],
      book_tbl = [\<lparr>bid = ''B1'', btitle = ''Logic'', bprice = 100, bstock = 10\<rparr>,
                  \<lparr>bid = ''7'', btitle = ''Sets'', bprice = 100, bstock = 7\<rparr>],
      sale_tbl = [\<lparr>sid = 1, sdate = ''2024-01-01'', sale_mid = ''M1'', sale_bid = ''7'',
                   sqty = 3, sdiscount = 50, stotal = 250\<rparr>],
      sale_seq = 1\<rparr>"

definition repriced_db :: db where
  "repriced_db =
     \<lparr>member_tbl = [\<lparr>mid = ''M1'', mname = ''Ann''\<rparr>],
      book_tbl = [\<lparr>bid = ''B1'', btitle = ''Logic'', bprice = 100, bstock = 10\<rparr>,
                  \<lparr>bid = ''7'', btitle = ''Sets'', bprice = 100, bstock = 7\<rparr>],
      sale_tbl = [\<lparr>sid = 1, sdate = ''2024-01-01'', sale_mid = ''M1'', sale_bid = ''7'',
                   sqty = 3, sdiscount = 20, stotal = 280\<rparr>],
      sale_seq = 1\<rparr>"

text \<open>
  The first shop again after its only sale was deleted: the identifier 1 stays used.
  Then a shop with two sales, before and after the discount of the second sale was
  changed to 30, and a shop whose only sale refers to a member that is not in the
  member table.
\<close>

definition returned_db :: db where
  "returned_db =
     \<lparr>member_tbl = [\<lparr>mid = ''M1'', mname = ''Ann''\<rparr>],
      book_tbl = [\<lparr>bid = ''B1'', btitle = ''Logic'', bprice = 100, bstock = 10\<rparr>,
                  \<lparr>bid = ''7'', btitle = ''Sets'', bprice = 100, bstock = 10\<rparr>],
      sale_tbl = [],
      sale_seq = 1\<rparr>"

definition two_sales_db :: db where
  "two_sales_db =
     \<lparr>member_tbl = [\<lparr>mid = ''M1'', mname = ''Ann''\<rparr>],
      book_tbl = [\<lparr>bid = ''B1'', btitle = ''Logic'', bprice = 100, bstock = 8\<rparr>,
                  \<lparr>bid = ''7'', btitle = ''Sets'', bprice = 100, bstock = 7\<rparr>],
      sale_tbl = [\<lparr>sid = 1, sdate = ''2024-01-01'', sale_mid = ''M1'', sale_bid = ''7'',
                   sqty = 3, sdiscount = 50, stotal = 250\<rparr>,
                  \<lparr>sid = 2, sdate = ''2024-01-02'', sale_mid = ''M1'', sale_bid = ''B1'',
                   sqty = 2, sdiscount = 0, stotal = 200\<rparr>],
      sale_seq = 2\<rparr>"

definition two_sales_repriced_db :: db where
  "two_sales_repriced_db =
     \<lparr>member_tbl = [\<lparr>mid = ''M1'', mname = ''Ann''\<rparr>],
      book_tbl = [\<lparr>bid = ''B1'', btitle = ''Logic'', bprice = 100, bstock = 8\<rparr>,
                  \<lparr>bid = ''7'', btitle = ''Sets'', bprice = 100, bstock = 7\<rparr>],
      sale_tbl = [\<lparr>sid = 1, sdate = ''2024-01-01'', sale_mid = ''M1'', sale_bid = ''7'',
                   sqty = 3, sdiscount = 50, stotal = 250\<rparr>,
                  \<lparr>sid = 2, sdate = ''2024-01-02'', sale_mid = ''M1'', sale_bid = ''B1'',
                   sqty = 2, sdiscount = 30, stotal = 170\<rparr>],
      sale_seq = 2\<rparr>"

definition orphan_db :: db where
  "orphan_db =
     \<lparr>member_tbl = [\<lparr>mid = ''M1'', mname = ''Ann''\<rparr>],
      book_tbl = [\<lparr>bid = ''7'', btitle = ''Sets'', bprice = 100, bstock = 7\<rparr>],
      sale_tbl = [\<lparr>sid = 1, sdate = ''2024-01-01'', sale_mid = ''M9'', sale_bid = ''7'',
                   sqty = 3, sdiscount = 50, stotal = 250\<rparr>],
      sale_seq = 1\<rparr>"

section \<open>The loop and the program\<close>

text \<open>
  The loop of \<^verbatim>\<open>main\<close> runs rounds until one breaks or raises. Every round reads
  the menu choice, and no operation ever adds to the lines still to be typed, so the
  loop ends on every finite input: at end of input \<^verbatim>\<open>input\<close> raises. The next
  lemmas establish this for the termination proof of \<open>main_loop\<close>.
\<close>

definition keeps_input :: "'a prog \<Rightarrow> bool" where
  "keeps_input m = (\<forall>w. length (stdin (snd (m w))) \<le> length (stdin w))"

lemma keeps_ret: "keeps_input (ret x)"
  by (simp add: keeps_input_def ret_def)

lemma keeps_raise: "keeps_input (raise e)"
  by (simp add: keeps_input_def raise_def)

lemma keeps_print: "keeps_input (print m)"
  by (simp add: keeps_input_def print_def)

lemma keeps_input_line: "keeps_input (input p)"
  by (simp add: keeps_input_def input_def split: list.splits)

lemma keeps_bnd:
  assumes "keeps_input m" and "\<And>x. keeps_input (f x)"
  shows "keeps_input (bnd m f)"
  unfolding keeps_input_def
proof
  fix w
  show "length (stdin (snd (bnd m f w))) \<le> length (stdin w)"
  proof (cases "m w")
    case (Pair r w1)
    have 1: "length (stdin w1) \<le> length (stdin w)"
      using assms(1) Pair by (auto simp: keeps_input_def dest: spec [of _ w])
    show ?thesis
    proof (cases r)
      case (Inl e)
      with Pair 1 show ?thesis by (simp add: bnd_def)
    next
      case (Inr x)
      have "length (stdin (snd (f x w1))) \<le> length (stdin w1)"
        using assms(2) by (simp add: keeps_input_def)
      with Pair Inr 1 show ?thesis by (simp add: bnd_def)
    qed
  qed
qed

lemma keeps_try:
  assumes "keeps_input m" and "\<And>e h. handler e = Some h \<Longrightarrow> keeps_input h"
  shows "keeps_input (try_except m handler)"
  unfolding keeps_input_def
proof
  fix w
  show "length (stdin (snd (try_except m handler w))) \<le> length (stdin w)"
  proof (cases "m w")
    case (Pair r w1)
    have 1: "length (stdin w1) \<le> length (stdin w)"
      using assms(1) Pair by (auto simp: keeps_input_def dest: spec [of _ w])
    show ?thesis
    proof (cases r)
      case (Inr x)
      with Pair 1 show ?thesis by (simp add: try_except_def)
    next
      case (Inl e)
      show ?thesis
      proof (cases "handler e")
        case None
        with Pair Inl 1 show ?thesis by (simp add: try_except_def)
      next
        case (Some h)
        have "length (stdin (snd (h w1))) \<le> length (stdin w1)"
          using assms(2) [OF Some] by (simp add: keeps_input_def)
        with Pair Inl Some 1 show ?thesis by (simp add: try_except_def)
      qed
    qed
  qed
qed

lemma keeps_storage_call: "keeps_input storage_call"
  by (simp add: keeps_input_def storage_call_def split: list.splits)

lemma keeps_query: "keeps_input (query q)"
  unfolding query_def
  by (rule keeps_bnd [OF keeps_storage_call]) (simp add: keeps_input_def split: sum.splits)

lemma keeps_execute: "keeps_input (execute f)"
  unfolding execute_def
  by (rule keeps_bnd [OF keeps_storage_call]) (simp add: keeps_input_def)

lemma keeps_execute_bound: "keeps_input (execute_bound params f)"
  by (simp add: execute_bound_def keeps_execute keeps_raise)

lemma keeps_begin: "keeps_input begin_transaction"
  unfolding begin_transaction_def
  by (rule keeps_bnd [OF keeps_storage_call]) (simp add: keeps_input_def)

lemma keeps_commit: "keeps_input commit"
  by (simp add: keeps_input_def commit_def bnd_def storage_call_def split: list.splits)

lemma keeps_rollback: "keeps_input rollback"
  by (simp add: keeps_input_def rollback_def)

lemma keeps_print_all: "keeps_input (print_all ms)"
  by (induction ms) (auto intro!: keeps_bnd keeps_print keeps_ret)

lemmas keeps_basic = keeps_bnd keeps_ret keeps_raise keeps_print keeps_input_line
  keeps_query keeps_execute keeps_execute_bound keeps_begin keeps_commit keeps_rollback
  keeps_print_all

lemmas keeps_intros = keeps_try keeps_basic

lemma keeps_add_sale: "keeps_input add_sale"
  unfolding add_sale_def add_sale_body_def add_sale_tx_def
  by (auto intro!: keeps_intros split: option.splits if_splits)

lemma keeps_report: "keeps_input print_sale_report"
  unfolding print_sale_report_def
  by (auto intro!: keeps_intros split: option.splits if_splits)

lemma keeps_list_sales: "keeps_input list_sales"
  unfolding list_sales_def
  by (auto intro!: keeps_intros split: option.splits if_splits)

lemma keeps_selection_handler: "selection_handler e = Some h \<Longrightarrow> keeps_input h"
  by (auto simp: selection_handler_def intro!: keeps_intros split: if_splits)

lemma keeps_update_body:
  "keeps_input (try_except (update_sale_body sales choice) selection_handler)"
proof (rule keeps_try)
  show "keeps_input (update_sale_body sales choice)"
    unfolding update_sale_body_def update_sale_tx_def
    by (auto intro!: keeps_basic split: option.splits if_splits)
qed (rule keeps_selection_handler)

lemma keeps_update_sale: "keeps_input update_sale"
  unfolding update_sale_def print_selection_def
  by (auto intro!: keeps_basic keeps_list_sales keeps_update_body)

lemma keeps_delete_body:
  "keeps_input (try_except (delete_sale_body sales choice) selection_handler)"
proof (rule keeps_try)
  show "keeps_input (delete_sale_body sales choice)"
    unfolding delete_sale_body_def delete_sale_tx_def
    by (auto intro!: keeps_basic split: option.splits if_splits)
qed (rule keeps_selection_handler)

lemma keeps_delete_sale: "keeps_input delete_sale"
  unfolding delete_sale_def print_selection_def
  by (auto intro!: keeps_basic keeps_list_sales keeps_delete_body)

lemma menu_round_consumes:
  assumes "menu_round w = (Inr go, w')"
  shows "length (stdin w') < length (stdin w)"
proof -
  obtain l ls where l: "stdin w = l # ls"
    using assms by (cases "stdin w") (auto simp: menu_round_def bnd_def print_def input_def)
  let ?w1 = "w\<lparr>stdout := stdout w @ [Menu], stdin := ls, stdout := stdout w @ [Menu, Prompt AskMenu]\<rparr>"
  have "keeps_input (\<lambda>w. (let choice = py_strip l in
     if choice = [] then ret False
     else if choice = ''1'' then bnd add_sale (\<lambda>_. ret True)
     else if choice = ''2'' then bnd print_sale_report (\<lambda>_. ret True)
     else if choice = ''3'' then bnd update_sale (\<lambda>_. ret True)
     else if choice = ''4'' then bnd delete_sale (\<lambda>_. ret True)
     else if choice = ''5'' then ret False
     else bnd (print ErrMenuChoice) (\<lambda>_. ret True)) w)" (is "keeps_input ?k")
    by (auto simp: Let_def intro!: keeps_intros keeps_add_sale keeps_report keeps_update_sale
        keeps_delete_sale)
  then have "length (stdin (snd (?k ?w1))) \<le> length ls"
    by (auto simp: keeps_input_def dest: spec [of _ ?w1])
  moreover have "menu_round w = ?k ?w1"
    using l by (simp add: menu_round_def bnd_def print_def input_def)
  ultimately have "length (stdin (snd (menu_round w))) \<le> length ls" by simp
  with assms l show ?thesis by simp
qed

text \<open>Lines 311 to 335: \<^verbatim>\<open>while True\<close>.\<close>

function main_loop :: "unit prog" where
  "main_loop w =
     (case menu_round w of
        (Inl e, w') \<Rightarrow> (Inl e, w')
      | (Inr go, w') \<Rightarrow> if go then main_loop w' else (Inr (), w'))"
  by pat_completeness auto
termination
  by (relation "measure (\<lambda>w. length (stdin w))") (auto dest: menu_round_consumes [OF sym])

text \<open>
  \<^verbatim>\<open>with connect_db() as conn\<close>: the connection commits when its block ends
  normally and rolls back when an exception leaves it.
\<close>

definition with_conn :: "'a prog \<Rightarrow> 'a prog" where
  "with_conn body =
     (\<lambda>w. case body w of
             (Inl e, w') \<Rightarrow> (Inl e, snd (rollback w'))
           | (Inr x, w') \<Rightarrow> bnd commit (\<lambda>_. ret x) w')"

text \<open>
  \<^verbatim>\<open>main\<close>, lines 307 to 341. Opening the connection is one call into the storage
  layer; every exception is reported, and the closing message is printed on every path.
\<close>

definition main :: "unit prog" where
  "main =
     bnd (try_except (bnd storage_call (\<lambda>_. with_conn main_loop))
            (\<lambda>e. if is_sqlite_error e then Some (print (DbConnectError e))
                 else Some (print (OtherError e))))
       (\<lambda>_. print ProgramEnd)"

section \<open>Properties of the date validator\<close>

lemma length_three_iff: "length xs = 3 \<longleftrightarrow> (\<exists>a b c. xs = [a, b, c])"
  by (auto simp: length_Suc_conv numeral_3_eq_3)

lemma case_three_options:
  "(case ys of [Some y, Some m, Some d] \<Rightarrow> P y m d | _ \<Rightarrow> False) \<longleftrightarrow>
   (\<exists>y m d. ys = [Some y, Some m, Some d] \<and> P y m d)"
proof (cases ys)
  case Nil
  then show ?thesis by simp
next
  case A: (Cons a as)
  show ?thesis
  proof (cases as)
    case Nil
    with A show ?thesis by (simp split: option.splits)
  next
    case B: (Cons b bs)
    show ?thesis
    proof (cases bs)
      case Nil
      with A B show ?thesis by (simp split: option.splits)
    next
      case (Cons c cs)
      with A B show ?thesis by (cases cs) (auto split: option.splits)
    qed
  qed
qed

lemma validate_date_tokens:
  assumes "validate_date s"
  shows "\<exists>y m d. map py_int (py_split (CHR ''-'') s) = [Some y, Some m, Some d]"
  using assms unfolding validate_date_def case_three_options by (auto split: if_splits)

lemma validate_date_eq_contract: "validate_date s = date_contract s"
proof (cases "length (py_split (CHR ''-'') s) = 3")
  case True
  then obtain a b c where abc: "py_split (CHR ''-'') s = [a, b, c]"
    by (auto simp: length_three_iff)
  show ?thesis
    by (auto simp: validate_date_def date_contract_def Let_def abc split: option.splits)
next
  case False
  have "\<not> validate_date s"
  proof
    assume "validate_date s"
    then obtain y m d where "map py_int (py_split (CHR ''-'') s) = [Some y, Some m, Some d]"
      by (auto dest: validate_date_tokens)
    then have "length (map py_int (py_split (CHR ''-'') s)) = 3" by simp
    with False show False by simp
  qed
  moreover have "\<not> date_contract s"
    using False by (simp add: date_contract_def Let_def)
  ultimately show ?thesis by simp
qed

lemma validate_date_february: "validate_date ''2023-02-31'' \<and> validate_date ''2023-02-29''"
  by code_simp

text \<open>
  Claim C8. For every input string, the date validator answers true exactly when the
  string has ten characters, holds exactly two hyphens, splits at the hyphens into three
  tokens that all parse as integers, and the month lies in 1..12 and the day in 1..31.
  No month length and no leap year is checked: 31 February and 29 February of a
  common year are accepted.
\<close>

theorem validate_date_contract:
  "(validate_date s \<longleftrightarrow> date_contract s) \<and>
   validate_date ''2023-02-31'' \<and> validate_date ''2023-02-29''"
  using validate_date_eq_contract validate_date_february by simp

theorem validate_date_contract_witness:
  "date_contract ''2024-01-15'' \<and> \<not> date_contract ''2024-13-01'' \<and>
   \<not> date_contract ''2024/01/01'' \<and> \<not> date_contract ''abc''"
proof -
  have "validate_date ''2024-01-15''" by code_simp
  moreover have "\<not> validate_date ''2024-13-01''" by code_simp
  moreover have "\<not> validate_date ''2024/01/01''" by code_simp
  moreover have "\<not> validate_date ''abc''" by code_simp
  ultimately show ?thesis
    using validate_date_contract [of "''2024-01-15''"]
      validate_date_contract [of "''2024-13-01''"]
      validate_date_contract [of "''2024/01/01''"]
      validate_date_contract [of "''abc''"]
    by simp
qed

section \<open>Properties of the statements\<close>

lemmas prog_defs = bnd_def ret_def raise_def try_except_def print_def input_def
  storage_call_def query_def execute_def begin_transaction_def commit_def rollback_def

lemma concat_map_if:
  "concat (map (\<lambda>r. if P r then [f r] else []) xs) = map f (filter P xs)"
  by (induction xs) auto

lemma select_book_filter:
  "select_book d b =
     map (\<lambda>r. (btitle r, bprice r, bstock r)) (filter (\<lambda>r. bid r = b) (book_tbl d))"
  by (simp add: select_book_def concat_map_if)

lemma book_rows_decrease:
  "map (\<lambda>r. (btitle r, bprice r, bstock r))
     (filter (\<lambda>r. bid r = b')
        (map (\<lambda>r. if bid r = b then r\<lparr>bstock := bstock r - q\<rparr> else r) xs)) =
   map (\<lambda>(t, p, s). (t, p, if b' = b then s - q else s))
     (map (\<lambda>r. (btitle r, bprice r, bstock r)) (filter (\<lambda>r. bid r = b') xs))"
  by (induction xs) auto

lemma select_book_decrease:
  "select_book (decrease_stock q b d) b' =
     map (\<lambda>(t, p, s). (t, p, if b' = b then s - q else s)) (select_book d b')"
  unfolding select_book_filter decrease_stock_def using book_rows_decrease by simp

lemma select_book_insert_sale [simp]:
  "select_book (insert_sale sd m b q dsc tot d) b' = select_book d b'"
  by (simp add: select_book_def insert_sale_def)



lemma select_book_delete_sale_row [simp]:
  "select_book (delete_sale_row i d) b = select_book d b"
  by (simp add: select_book_def delete_sale_row_def)

lemma filter_key_distinct:
  "distinct (map f xs) \<Longrightarrow> x \<in> set xs \<Longrightarrow> filter (\<lambda>y. f y = f x) xs = [x]"
proof (induction xs)
  case Nil
  then show ?case by simp
next
  case (Cons a xs)
  show ?case
  proof (cases "a = x")
    case True
    with Cons.prems have "filter (\<lambda>y. f y = f x) xs = []"
      by (auto simp: filter_empty_conv image_iff)
    with True show ?thesis by simp
  next
    case False
    with Cons show ?thesis by (auto simp: image_iff)
  qed
qed


lemma no_sale_no_bid_qty:
  "\<forall>s \<in> set (sale_tbl d). sid s \<noteq> i \<Longrightarrow> select_bid_qty d i = []"
  by (simp add: select_bid_qty_def concat_map_if filter_empty_conv)

lemma no_sale_no_qty_price:
  "\<forall>s \<in> set (sale_tbl d). sid s \<noteq> i \<Longrightarrow> select_qty_price d i = []"
  by (auto simp: select_qty_price_def)



lemma select_report_no_sales: "sale_tbl d = [] \<Longrightarrow> select_report d = []"
  by (simp add: select_report_def)

lemma py_int_nonempty: "py_int s = Some c \<Longrightarrow> s \<noteq> []"
  by (auto simp: py_int_def strip_def)

lemma print_all_run: "print_all ms w = (Inr (), w\<lparr>stdout := stdout w @ ms\<rparr>)"
  by (induction ms arbitrary: w) (simp_all add: prog_defs)

subsection \<open>The writing statements keep the primary keys\<close>

text \<open>
  A new sale gets an identifier no row carries yet, and no other statement of the
  program touches a key column.
\<close>

lemma fold_max_bounds:
  "a \<le> fold max xs a \<and> (\<forall>x \<in> set xs. x \<le> fold max xs (a::int))"
proof (induction xs arbitrary: a)
  case Nil
  then show ?case by simp
next
  case (Cons y ys)
  from Cons [of "max y a"] show ?case by auto
qed

lemma next_sid_fresh: "next_sid d \<notin> set (map sid (sale_tbl d))"
proof
  assume "next_sid d \<in> set (map sid (sale_tbl d))"
  then have "next_sid d \<le> fold max (map sid (sale_tbl d)) 0"
    using fold_max_bounds [of 0 "map sid (sale_tbl d)"] by blast
  then show False by (simp add: next_sid_def)
qed

lemma bid_stock_update:
  "bid \<circ> (\<lambda>r. if bid r = b then r\<lparr>bstock := f r\<rparr> else r) = bid"
  by (rule ext) simp

lemma sid_discount_update:
  "sid \<circ> (\<lambda>s. if sid s = i then s\<lparr>sdiscount := dsc, stotal := tot\<rparr> else s) = sid"
  by (rule ext) simp

lemma primary_keys_insert_sale:
  "primary_keys d \<Longrightarrow> primary_keys (insert_sale sd m b q dsc tot d)"
  using next_sid_fresh [of d] by (simp add: primary_keys_def insert_sale_def)

lemma primary_keys_decrease_stock:
  "primary_keys d \<Longrightarrow> primary_keys (decrease_stock q b d)"
  by (simp add: primary_keys_def decrease_stock_def bid_stock_update)

lemma primary_keys_increase_stock:
  "primary_keys d \<Longrightarrow> primary_keys (increase_stock q b d)"
  by (simp add: primary_keys_def increase_stock_def bid_stock_update)

lemma primary_keys_set_discount:
  "primary_keys d \<Longrightarrow> primary_keys (set_discount dsc tot i d)"
  by (simp add: primary_keys_def set_discount_def sid_discount_update)

lemma primary_keys_delete_sale_row:
  "primary_keys d \<Longrightarrow> primary_keys (delete_sale_row i d)"
  by (simp add: primary_keys_def delete_sale_row_def distinct_map_filter)

lemma primary_keys_examples:
  "primary_keys sample_db \<and> primary_keys sold_db \<and> primary_keys repriced_db \<and>
   primary_keys two_sales_db"
  by (simp add: primary_keys_def sample_db_def sold_db_def repriced_db_def two_sales_db_def)

text \<open>The identifier of a deleted sale is not given to the next sale.\<close>

lemma next_sid_after_delete: "next_sid sold_db = 2 \<and> next_sid returned_db = 2"
  by (simp add: next_sid_def sold_db_def returned_db_def)

section \<open>Properties of creating a sale\<close>

lemma add_sale_run:
  assumes "validate_date sd"
    and "get_member_name d m = Inr (Some name)" and "name \<noteq> []"
    and "get_book_info d b = Inr (Some (title, price, stock))"
    and "py_int qs = Some q" and "0 < q" and "q \<le> stock"
    and "py_int ds = Some dsc" and "0 \<le> dsc"
    and "sqlite_int q" and "sqlite_int dsc" and "sqlite_int (price * q - dsc)"
  shows "add_sale (start d (sd # m # b # qs # ds # rest) []) =
           (Inr (),
            \<lparr>db_conn = connect_db (decrease_stock q b (insert_sale sd m b q dsc (price * q - dsc) d)),
             stdin = rest,
             stdout = [Prompt AskDate, Prompt AskMember, Prompt AskBook, Prompt AskQty,
                       Prompt AskDiscount, SaleAdded (price * q - dsc)],
             faults = []\<rparr>)"
  using assms
  by (simp add: add_sale_def add_sale_body_def add_sale_tx_def execute_bound_def prog_defs
      start_def connect_db_def truthy_def)

lemma get_book_info_after_sale:
  assumes "get_book_info d b = Inr (Some (title, price, stock))"
  shows "get_book_info (decrease_stock q b (insert_sale sd m b q dsc tot d)) b =
           Inr (Some (title, price, stock - q))"
proof -
  from assms obtain c where b: "b = [c]"
    by (cases b) (auto simp: get_book_info_def split: if_splits)
  from assms obtain rows where rows: "select_book d b = (title, price, stock) # rows"
    by (auto simp: get_book_info_def b fetchone_def split: list.splits)
  show ?thesis
    using rows by (simp add: get_book_info_def b fetchone_def select_book_decrease)
qed

text \<open>
  When every validation of create-sale passes (the date is valid, the member lookup
  answers a name, the book lookup answers the book, the quantity is a positive integer
  not above the stock, the discount is a non-negative integer), quantity, discount and
  total are within the 64-bit range, and the store does not fail, the run appends
  exactly one sale row, whose total is the unit price times the quantity minus the
  discount, lowers the stock of the rows of that book by the quantity, and changes
  nothing else but the store's record of the last identifier: the member table, the
  other book rows and columns and the earlier sale rows stay as they were, and the
  change is committed.
\<close>

lemma add_sale_success:
  fixes d :: db and sd m b :: string and q dsc price :: int
  defines "d' \<equiv>
     d\<lparr>sale_tbl := sale_tbl d @
          [\<lparr>sid = next_sid d, sdate = sd, sale_mid = m, sale_bid = b,
            sqty = q, sdiscount = dsc, stotal = price * q - dsc\<rparr>],
        sale_seq := next_sid d,
        book_tbl := map (\<lambda>r. if bid r = b then r\<lparr>bstock := bstock r - q\<rparr> else r)
                      (book_tbl d)\<rparr>"
  assumes pass: "validate_date sd"
      "get_member_name d m = Inr (Some name)" "name \<noteq> []"
      "get_book_info d b = Inr (Some (title, price, stock))"
      "py_int qs = Some q" "0 < q" "q \<le> stock"
      "py_int ds = Some dsc" "0 \<le> dsc"
      "sqlite_int q" "sqlite_int dsc" "sqlite_int (price * q - dsc)"
  shows "add_sale (start d (sd # m # b # qs # ds # rest) []) =
           (Inr (),
            \<lparr>db_conn = connect_db d',
             stdin = rest,
             stdout = [Prompt AskDate, Prompt AskMember, Prompt AskBook, Prompt AskQty,
                       Prompt AskDiscount, SaleAdded (price * q - dsc)],
             faults = []\<rparr>) \<and>
         member_tbl d' = member_tbl d \<and>
         get_book_info d' b = Inr (Some (title, price, stock - q))"
proof -
  have d': "d' = decrease_stock q b (insert_sale sd m b q dsc (price * q - dsc) d)"
    by (simp add: d'_def decrease_stock_def insert_sale_def)
  show ?thesis
    unfolding d' using add_sale_run [OF pass] get_book_info_after_sale [OF pass(4)]
    by (simp add: decrease_stock_def insert_sale_def)
qed

lemma add_sale_success_example:
  "add_sale (start sample_db [''2024-01-01'', ''M1'', ''7'', ''3'', ''50''] []) =
     (Inr (),
      \<lparr>db_conn = connect_db sold_db, stdin = [],
       stdout = [Prompt AskDate, Prompt AskMember, Prompt AskBook, Prompt AskQty,
                 Prompt AskDiscount, SaleAdded 250],
       faults = []\<rparr>)"
proof -
  have 1: "validate_date ''2024-01-01''" by code_simp
  have 2: "get_member_name sample_db ''M1'' = Inr (Some ''Ann'')" by code_simp
  have 3: "''Ann'' \<noteq> []" by simp
  have 4: "get_book_info sample_db ''7'' = Inr (Some (''Sets'', 100, 10))" by code_simp
  have 5: "py_int ''3'' = Some 3" by code_simp
  have 6: "py_int ''50'' = Some 50" by code_simp
  show ?thesis
    using add_sale_success [OF 1 2 3 4 5 _ _ 6, of "[]"]
    by (simp add: sample_db_def sold_db_def next_sid_def sqlite_int_def)
qed

text \<open>
  Claim C1, at an input where the code departs from it. The shop holds member M1 and
  book B1 with price 100 and stock 10; the typed date is valid, the quantity 3 is
  positive and within the stock, the discount 50 is not negative. The claim asks for
  one new sale row with total 250 and for stock 7. The run ends with the
  database-error message after the book prompt instead: no sale row is inserted and the
  stock stays 10. The same input for the book with the one-character identifier 7 does
  what the claim says.
\<close>

theorem add_sale_existing_book_no_sale:
  "select_mname sample_db ''M1'' = [''Ann''] \<and>
   select_book sample_db ''B1'' = [(''Logic'', 100, 10)] \<and>
   py_int ''3'' = Some 3 \<and> py_int ''50'' = Some 50 \<and>
   stdout (snd (add_sale (start sample_db [''2024-01-01'', ''M1'', ''B1'', ''3'', ''50''] []))) =
     [Prompt AskDate, Prompt AskMember, Prompt AskBook, DbError ProgrammingError] \<and>
   sale_tbl (committed (db_conn (snd (add_sale
     (start sample_db [''2024-01-01'', ''M1'', ''B1'', ''3'', ''50''] []))))) = [] \<and>
   select_book (committed (db_conn (snd (add_sale
     (start sample_db [''2024-01-01'', ''M1'', ''B1'', ''3'', ''50''] []))))) ''B1'' =
     [(''Logic'', 100, 10)] \<and>
   db_conn (snd (add_sale (start sample_db [''2024-01-01'', ''M1'', ''7'', ''3'', ''50''] []))) =
     connect_db sold_db"
  by code_simp

text \<open>
  Claim C2. When the quantity typed for a book of the table is a positive integer above
  that book's stock, create-sale ends normally with a message as its last output and
  without any change: the connection holds the database as it was, committed and
  uncommitted alike, whatever the date, the member, the further input and the storage
  failures of the run are. When the earlier validations pass and the store does not
  fail, that message is the insufficient-stock message with the current stock.
\<close>

theorem add_sale_insufficient_stock:
  fixes d :: db
  defines "r \<equiv> \<lambda>sd m b qs rest fs. add_sale (start d (sd # m # b # qs # rest) fs)"
  assumes low: "fetchone (select_book d b) = Some (title, price, stock)"
      "py_int qs = Some q" "0 < q" "stock < q"
  shows "fst (r sd m b qs rest fs) = Inr () \<and>
         db_conn (snd (r sd m b qs rest fs)) = connect_db d \<and>
         last (stdout (snd (r sd m b qs rest fs)))
           \<in> {ErrDateFormat, ErrNoMember, ErrStock stock,
               DbError OperationalError, DbError ProgrammingError} \<and>
         (validate_date sd \<and> truthy (fetchone (select_mname d m)) \<and> length b = 1 \<longrightarrow>
            stdout (snd (r sd m b qs rest [])) =
              [Prompt AskDate, Prompt AskMember, Prompt AskBook, Prompt AskQty, ErrStock stock])"
proof (cases "length b = 1")
  case True
  then obtain c where b: "b = [c]" by (cases b) auto
  show ?thesis using low unfolding b r_def
    by (auto simp: add_sale_def add_sale_body_def prog_defs start_def connect_db_def
      get_member_name_def get_book_info_def is_sqlite_error_def
      split: list.splits option.splits sum.splits prod.splits if_splits)
next
  case False
  show ?thesis using low False unfolding r_def
    by (auto simp: add_sale_def add_sale_body_def prog_defs start_def connect_db_def
      get_member_name_def get_book_info_def is_sqlite_error_def
      split: list.splits option.splits sum.splits prod.splits if_splits)
qed

theorem add_sale_insufficient_stock_witness:
  "add_sale (start sample_db [''2024-01-01'', ''M1'', ''7'', ''11'', ''50''] []) =
     (Inr (),
      \<lparr>db_conn = connect_db sample_db, stdin = [''50''],
       stdout = [Prompt AskDate, Prompt AskMember, Prompt AskBook, Prompt AskQty, ErrStock 10],
       faults = []\<rparr>)"
proof -
  let ?w = "add_sale (start sample_db [''2024-01-01'', ''M1'', ''7'', ''11'', ''50''] [])"
  have 1: "fetchone (select_book sample_db ''7'') = Some (''Sets'', 100, 10)" by code_simp
  have 2: "py_int ''11'' = Some 11" by code_simp
  have 3: "validate_date ''2024-01-01''" by code_simp
  have 4: "truthy (fetchone (select_mname sample_db ''M1''))" by code_simp
  have "fst ?w = Inr () \<and> db_conn (snd ?w) = connect_db sample_db \<and>
        stdout (snd ?w) =
          [Prompt AskDate, Prompt AskMember, Prompt AskBook, Prompt AskQty, ErrStock 10]"
    using add_sale_insufficient_stock [OF 1 2, of "''2024-01-01''" "''M1''" "[''50'']" "[]"] 3 4
    by simp
  moreover have "stdin (snd ?w) = [''50'']" by code_simp
  moreover have "faults (snd ?w) = []" by code_simp
  ultimately show ?thesis by (cases ?w) auto
qed

text \<open>
  The extent of the book lookup: it answers the first row of the book for an identifier
  of exactly one character, and raises for every other identifier, whatever the book
  table holds.
\<close>

lemma get_book_info_one_character:
  "get_book_info d [c] = Inr (fetchone (select_book d [c]))"
  by (simp add: get_book_info_def)

lemma get_book_info_other_length:
  "length b \<noteq> 1 \<Longrightarrow> get_book_info d b = Inl ProgrammingError"
  by (simp add: get_book_info_def)

text \<open>
  Claim C3, at the input where the code departs from it. The book table holds a row
  with identifier B1, yet the book lookup of create-sale raises
  \<^verbatim>\<open>ProgrammingError\<close> for that identifier: the run reports a database error after
  the book prompt and never reaches the quantity prompt. The member lookup, which
  passes its parameter as a tuple, finds its two-character identifier.
\<close>

theorem get_book_info_two_characters:
  "select_book sample_db ''B1'' = [(''Logic'', 100, 10)] \<and>
   get_book_info sample_db ''B1'' = Inl ProgrammingError \<and>
   get_member_name sample_db ''M1'' = Inr (Some ''Ann'') \<and>
   add_sale (start sample_db [''2024-01-01'', ''M1'', ''B1'', ''3'', ''50''] []) =
     (Inr (),
      \<lparr>db_conn = connect_db sample_db, stdin = [''3'', ''50''],
       stdout = [Prompt AskDate, Prompt AskMember, Prompt AskBook, DbError ProgrammingError],
       faults = []\<rparr>)"
  by code_simp

section \<open>Properties of the report\<close>

lemma report_run:
  "print_sale_report (start d ins []) =
     (Inr (), \<lparr>db_conn = connect_db d, stdin = ins,
               stdout = (if select_report d = [] then [NoSaleRecords]
                         else map SaleReport (select_report d)),
               faults = []\<rparr>)"
  by (simp add: print_sale_report_def prog_defs start_def connect_db_def print_all_run)

lemma report_total:
  "fst (print_sale_report (start d ins fs)) = Inr () \<and>
   db_conn (snd (print_sale_report (start d ins fs))) = connect_db d"
  by (auto simp: print_sale_report_def prog_defs start_def connect_db_def print_all_run
      is_sqlite_error_def split: list.splits)

text \<open>
  Claim C9. When the report query, the join of the sales with their members and books,
  has no rows, the report prints the no-records message and nothing else, ends
  normally and leaves the database as it was. An empty sale table is one such case; a
  sale table whose rows all lack their member or their book is another. Whatever the
  storage layer does, the report never raises and never changes the database. The
  message is distinct: a report with rows prints something and never prints that
  message.
\<close>

theorem report_without_sales:
  assumes "select_report d = []"
  shows "print_sale_report (start d ins []) =
           (Inr (), \<lparr>db_conn = connect_db d, stdin = ins, stdout = [NoSaleRecords],
                     faults = []\<rparr>) \<and>
         (\<forall>fs. fst (print_sale_report (start d ins fs)) = Inr () \<and>
               db_conn (snd (print_sale_report (start d ins fs))) = connect_db d) \<and>
         (sale_tbl d1 = [] \<longrightarrow> select_report d1 = []) \<and>
         (select_report d2 \<noteq> [] \<longrightarrow>
            NoSaleRecords \<notin> set (stdout (snd (print_sale_report (start d2 ins [])))) \<and>
            stdout (snd (print_sale_report (start d2 ins []))) \<noteq> [])"
  using assms report_total [of d ins]
  by (auto simp: select_report_no_sales report_run)

theorem report_without_sales_witness:
  "print_sale_report (start sample_db [] []) =
     (Inr (), \<lparr>db_conn = connect_db sample_db, stdin = [], stdout = [NoSaleRecords],
               faults = []\<rparr>) \<and>
   sale_tbl orphan_db \<noteq> [] \<and>
   print_sale_report (start orphan_db [] []) =
     (Inr (), \<lparr>db_conn = connect_db orphan_db, stdin = [], stdout = [NoSaleRecords],
               faults = []\<rparr>) \<and>
   stdout (snd (print_sale_report (start sold_db [] []))) =
     [SaleReport (1, ''2024-01-01'', ''Ann'', ''Sets'', 100, 3, 50, 250)]"
proof -
  have 1: "select_report sample_db = []" by code_simp
  have 2: "select_report orphan_db = []" by code_simp
  have 3: "sale_tbl orphan_db \<noteq> []" by (simp add: orphan_db_def)
  have 4: "stdout (snd (print_sale_report (start sold_db [] []))) =
     [SaleReport (1, ''2024-01-01'', ''Ann'', ''Sets'', 100, 3, 50, 250)]" by code_simp
  show ?thesis
    using report_without_sales [OF 1, of "[]"] report_without_sales [OF 2, of "[]"] 3 4
    by simp
qed

section \<open>Properties of deleting a sale\<close>


lemma delete_sale_tx_missing:
  assumes "select_bid_qty d i = []"
  shows "delete_sale_tx i \<lparr>db_conn = connect_db d, stdin = ins, stdout = out,
                           faults = False # False # False # fs\<rparr> =
           (Inr (), \<lparr>db_conn = connect_db d, stdin = ins, stdout = out @ [SaleDeleted i],
                     faults = fs\<rparr>)"
    and "delete_sale_tx i \<lparr>db_conn = connect_db d, stdin = ins, stdout = out, faults = []\<rparr> =
           (Inr (), \<lparr>db_conn = connect_db d, stdin = ins, stdout = out @ [SaleDeleted i],
                     faults = []\<rparr>)"
  using assms
  by (simp_all add: delete_sale_tx_def prog_defs connect_db_def fetchone_def)



text \<open>
  Claim C6. When no row of the sale table carries the selected identifier, the
  transaction of a confirmed delete makes exactly three calls into the storage layer
  (begin, the read, commit: the stock update and the delete are skipped), ends normally
  after the commit with the database as it was, and prints the same message as a real
  delete; no error is reported, also not by the handler around it.
\<close>

theorem delete_sale_missing_row:
  fixes d :: db
  defines "w \<equiv> \<lambda>ins out fs. \<lparr>db_conn = connect_db d, stdin = ins, stdout = out, faults = fs\<rparr>"
  assumes "\<forall>s \<in> set (sale_tbl d). sid s \<noteq> i"
  shows "delete_sale_tx i (w ins out []) = (Inr (), w ins (out @ [SaleDeleted i]) []) \<and>
         try_except (delete_sale_tx i) selection_handler (w ins out []) =
           (Inr (), w ins (out @ [SaleDeleted i]) []) \<and>
         delete_sale_tx i (w ins out (False # False # False # fs)) =
           (Inr (), w ins (out @ [SaleDeleted i]) fs)"
  using delete_sale_tx_missing [OF no_sale_no_bid_qty [OF assms(2)]]
  by (simp add: w_def try_except_def)

theorem delete_sale_missing_row_witness:
  "delete_sale_tx 5 \<lparr>db_conn = connect_db sold_db, stdin = [], stdout = [], faults = []\<rparr> =
     (Inr (), \<lparr>db_conn = connect_db sold_db, stdin = [], stdout = [SaleDeleted 5], faults = []\<rparr>)"
proof -
  have "\<forall>s \<in> set (sale_tbl sold_db). sid s \<noteq> 5" by (simp add: sold_db_def)
  from delete_sale_missing_row [OF this, of "[]" "[]"] show ?thesis by simp
qed

section \<open>Properties of updating a sale\<close>

lemma list_lines_no_update [simp]: "SaleUpdated i t \<notin> set (list_lines sales)"
  by (auto simp: list_lines_def)

lemma execute_cases:
  assumes "execute f w = (r, w')"
  shows "stdout w' = stdout w \<and> stdin w' = stdin w \<and>
         (r = Inr () \<or> r = Inl OperationalError \<and> db_conn w' = db_conn w) \<and>
         (r = Inr () \<longrightarrow>
            db_conn w' = (db_conn w)\<lparr>working := f (working (db_conn w)), in_tx := True\<rparr>)"
  using assms by (auto simp: prog_defs split: list.splits if_splits)

lemma execute_bound_cases:
  assumes "execute_bound ps f w = (r, w')"
  shows "stdout w' = stdout w \<and> stdin w' = stdin w \<and>
         (r = Inr () \<longrightarrow>
            db_conn w' = (db_conn w)\<lparr>working := f (working (db_conn w)), in_tx := True\<rparr>)"
  using assms execute_cases [of f w r w']
  by (auto simp: execute_bound_def raise_def split: if_splits)

lemma commit_cases:
  assumes "commit w = (r, w')" and "in_tx (db_conn w)"
  shows "stdout w' = stdout w \<and> stdin w' = stdin w \<and>
         (r = Inr () \<longrightarrow>
            db_conn w' = (db_conn w)\<lparr>committed := working (db_conn w), in_tx := False\<rparr>)"
  using assms by (auto simp: prog_defs split: list.splits if_splits)

lemma begin_cases:
  assumes "begin_transaction w = (r, w')"
  shows "stdout w' = stdout w \<and> stdin w' = stdin w \<and>
         (r = Inr () \<longrightarrow> db_conn w' = (db_conn w)\<lparr>in_tx := True\<rparr>)"
  using assms by (auto simp: prog_defs split: list.splits if_splits)

lemma query_cases:
  assumes "query (\<lambda>d. Inr (g d)) w = (r, w')"
  shows "stdout w' = stdout w \<and> stdin w' = stdin w \<and> db_conn w' = db_conn w \<and>
         (r = Inr (g (working (db_conn w))) \<or> r = Inl OperationalError)"
  using assms by (auto simp: prog_defs split: list.splits if_splits)

lemma update_sale_tx_cases:
  assumes run: "update_sale_tx j nd w = (r, w')"
    and ok: "SaleUpdated i t \<in> set (stdout w')"
    and old: "SaleUpdated i t \<notin> set (stdout w)" and w: "db_conn w = connect_db d"
  shows "r = Inr () \<and> j = i \<and> stdin w' = stdin w \<and>
         (\<exists>q price. fetchone (select_qty_price d i) = Some (q, price) \<and> t = price * q - nd) \<and>
         db_conn w' = connect_db (set_discount nd t i d)"
proof -
  obtain r1 w1 where b: "begin_transaction w = (r1, w1)" by force
  note b1 = begin_cases [OF b]
  show ?thesis
  proof (cases r1)
    case (Inl e)
    with run b b1 ok old show ?thesis by (simp add: update_sale_tx_def bnd_def)
  next
    case r1: (Inr u)
    with b1 w have c1: "db_conn w1 = \<lparr>committed = d, working = d, in_tx = True\<rparr>"
      by (simp add: connect_db_def)
    obtain r2 w2 where q: "query (\<lambda>d. Inr (fetchone (select_qty_price d j))) w1 = (r2, w2)"
      by force
    note q2 = query_cases [OF q]
    show ?thesis
    proof (cases r2)
      case (Inl e)
      with run b r1 q q2 b1 ok old show ?thesis by (simp add: update_sale_tx_def bnd_def)
    next
      case r2: (Inr info)
      with q2 c1 have info: "info = fetchone (select_qty_price d j)" by auto
      show ?thesis
      proof (cases info)
        case None
        with run b r1 q r2 q2 b1 ok old show ?thesis
          by (auto simp: update_sale_tx_def bnd_def print_def rollback_def split: if_splits)
      next
        case (Some qp)
        obtain qq price where qp: "qp = (qq, price)" by (cases qp)
        let ?t = "price * qq - nd"
        obtain r3 w3 where e: "execute_bound [nd, ?t] (set_discount nd ?t j) w2 = (r3, w3)"
          by force
        note e3 = execute_bound_cases [OF e]
        show ?thesis
        proof (cases r3)
          case (Inl e')
          with run b r1 q r2 Some qp e e3 q2 b1 ok old show ?thesis
            by (simp add: update_sale_tx_def bnd_def)
        next
          case r3: (Inr u3)
          with e3 q2 c1 have c3: "db_conn w3 =
              \<lparr>committed = d, working = set_discount nd ?t j d, in_tx = True\<rparr>"
            by simp
          obtain r4 w4 where c: "commit w3 = (r4, w4)" by force
          from c3 have "in_tx (db_conn w3)" by simp
          note c4 = commit_cases [OF c this]
          show ?thesis
          proof (cases r4)
            case (Inl e')
            with run b r1 q r2 Some qp e r3 c c4 e3 q2 b1 ok old show ?thesis
              by (simp add: update_sale_tx_def bnd_def)
          next
            case r4: (Inr u4)
            have res: "r = Inr ()" "w' = w4\<lparr>stdout := stdout w4 @ [SaleUpdated j ?t]\<rparr>"
              using run b r1 q r2 Some qp e r3 c r4
              by (simp_all add: update_sale_tx_def bnd_def print_def)
            have out4: "stdout w4 = stdout w" "stdin w4 = stdin w"
              using c4 e3 q2 b1 by simp_all
            from ok res out4 old have ji: "j = i" "t = ?t" by auto
            have "db_conn w4 = connect_db (set_discount nd ?t j d)"
              using c4 r4 c3 by (simp add: connect_db_def)
            moreover have "fetchone (select_qty_price d i) = Some (qq, price)"
              using info Some qp ji by simp
            then have "\<exists>q price. fetchone (select_qty_price d i) = Some (q, price) \<and>
                t = price * q - nd"
              using ji by blast
            ultimately show ?thesis using res out4 ji by simp
          qed
        qed
      qed
    qed
  qed
qed

lemma update_sale_body_cases:
  assumes "try_except (update_sale_body sales choice) selection_handler w = (r, w')"
    and "SaleUpdated i t \<in> set (stdout w')"
    and "SaleUpdated i t \<notin> set (stdout w)" and "db_conn w = connect_db d"
  shows "\<exists>c ds rest nd.
           stdin w = ds # rest \<and> stdin w' = rest \<and> py_int choice = Some c \<and> 1 \<le> c \<and>
           c \<le> int (length sales) \<and> i = fst (sales ! nat (c - 1)) \<and>
           py_int ds = Some nd \<and> 0 \<le> nd \<and>
           (\<exists>q price. fetchone (select_qty_price d i) = Some (q, price) \<and> t = price * q - nd) \<and>
           r = Inr () \<and> db_conn w' = connect_db (set_discount nd t i d)"
proof (cases "update_sale_body sales choice w")
  case (Pair r0 w0)
  have in0: "SaleUpdated i t \<in> set (stdout w0)"
    using assms(1,2) Pair
    by (auto simp: try_except_def selection_handler_def prog_defs split: sum.splits if_splits)
  from Pair in0 assms(3) obtain c where c: "py_int choice = Some c" "1 \<le> c" "c \<le> int (length sales)"
    by (auto simp: update_sale_body_def prog_defs split: option.splits if_splits)
  from Pair in0 assms(3) c obtain ds rest where ds: "stdin w = ds # rest"
    by (auto simp: update_sale_body_def prog_defs split: option.splits if_splits list.splits)
  let ?w1 = "w\<lparr>stdin := rest, stdout := stdout w @ [Prompt AskNewDiscount]\<rparr>"
  from Pair in0 assms(3) c ds obtain nd where nd: "py_int ds = Some nd" "0 \<le> nd"
    and tx: "update_sale_tx (fst (sales ! nat (c - 1))) nd ?w1 = (r0, w0)"
    by (auto simp: update_sale_body_def prog_defs split: option.splits if_splits)
  have "SaleUpdated i t \<notin> set (stdout ?w1)" "db_conn ?w1 = connect_db d"
    using assms(3,4) by simp_all
  from update_sale_tx_cases [OF tx in0 this]
  have res: "r0 = Inr ()" "fst (sales ! nat (c - 1)) = i" "stdin w0 = rest"
    "\<exists>q price. fetchone (select_qty_price d i) = Some (q, price) \<and> t = price * q - nd"
    "db_conn w0 = connect_db (set_discount nd t i d)"
    by auto
  have "r = r0" "w' = w0"
    using assms(1) Pair res(1) by (simp_all add: try_except_def)
  with res c ds nd show ?thesis by auto
qed


lemma print_selection_run:
  "print_selection sales w =
     (Inr (), w\<lparr>stdout := stdout w @ ListHeader # list_lines sales @ [ListFooter]\<rparr>)"
  by (simp add: print_selection_def print_all_run prog_defs)

lemma list_sales_cases:
  assumes "list_sales (start d ins fs) = (r1, w1)"
  shows "stdin w1 = ins \<and> db_conn w1 = connect_db d \<and>
         (r1 = Inr (select_list d) \<and> stdout w1 = [] \<or>
          r1 = Inr [] \<and> stdout w1 = [DbError OperationalError])"
  using assms
  by (auto simp: list_sales_def prog_defs start_def connect_db_def is_sqlite_error_def
      split: list.splits if_splits)

lemma update_sale_cases:
  assumes run: "update_sale (start d ins fs) = (r, w')"
    and ok: "SaleUpdated i t \<in> set (stdout w')"
  shows "\<exists>choice ds rest c nd.
           ins = choice # ds # rest \<and> stdin w' = rest \<and> py_int choice = Some c \<and> 1 \<le> c \<and>
           c \<le> int (length (select_list d)) \<and> i = fst (select_list d ! nat (c - 1)) \<and>
           py_int ds = Some nd \<and> 0 \<le> nd \<and>
           (\<exists>q price. fetchone (select_qty_price d i) = Some (q, price) \<and> t = price * q - nd) \<and>
           r = Inr () \<and> db_conn w' = connect_db (set_discount nd t i d)"
proof -
  obtain r1 w1 where ls: "list_sales (start d ins fs) = (r1, w1)" by force
  from list_sales_cases [OF ls]
  have w1: "stdin w1 = ins" "db_conn w1 = connect_db d" "SaleUpdated i t \<notin> set (stdout w1)"
    and r1: "r1 = Inr (select_list d) \<or> r1 = Inr []"
    by auto
  then obtain sales where sales: "r1 = Inr sales" "sales = select_list d \<or> sales = []"
    by auto
  have ne: "sales \<noteq> []"
    using run ok ls sales(1) w1(3) by (auto simp: update_sale_def bnd_def print_def)
  with sales(2) have sl: "sales = select_list d" by simp
  let ?w2 = "w1\<lparr>stdout := stdout w1 @ ListHeader # list_lines sales @ [ListFooter]\<rparr>"
  have step: "update_sale (start d ins fs) =
      bnd (input AskUpdateChoice) (\<lambda>choice.
        if choice = [] then ret ()
        else try_except (update_sale_body sales choice) selection_handler) ?w2"
    using ls sales(1) ne by (simp add: update_sale_def bnd_def print_selection_run)
  obtain choice rest0 where ins: "ins = choice # rest0"
    using run ok w1 unfolding step by (cases ins) (auto simp: bnd_def input_def)
  let ?w3 = "?w2\<lparr>stdin := rest0, stdout := stdout ?w2 @ [Prompt AskUpdateChoice]\<rparr>"
  have ch: "choice \<noteq> []"
    using run ok w1 ins unfolding step by (auto simp: bnd_def input_def ret_def)
  have body: "try_except (update_sale_body sales choice) selection_handler ?w3 = (r, w')"
    using run w1 ins ch unfolding step by (simp add: bnd_def input_def)
  have "SaleUpdated i t \<notin> set (stdout ?w3)" "db_conn ?w3 = connect_db d"
    using w1 by simp_all
  from update_sale_body_cases [OF body ok this] ins sl show ?thesis by auto
qed

lemma concat_map_filter:
  "concat (map (\<lambda>x. if P x then g x else []) xs) = concat (map g (filter P xs))"
  by (induction xs) auto

lemma select_qty_price_unique:
  assumes "distinct (map sid (sale_tbl d))" and "distinct (map bid (book_tbl d))"
    and "s \<in> set (sale_tbl d)" and "b \<in> set (book_tbl d)" and "bid b = sale_bid s"
  shows "select_qty_price d (sid s) = [(sqty s, bprice b)]"
proof -
  have 1: "filter (\<lambda>x. sid x = sid s) (sale_tbl d) = [s]"
    using filter_key_distinct [OF assms(1,3)] .
  have 2: "filter (\<lambda>x. bid x = sale_bid s) (book_tbl d) = [b]"
    using filter_key_distinct [OF assms(2,4)] assms(5) by simp
  show ?thesis
    by (simp add: select_qty_price_def concat_map_filter 1 concat_map_if 2)
qed

lemma select_qty_price_row:
  assumes "fetchone (select_qty_price d i) = Some (q, price)"
  shows "\<exists>s \<in> set (sale_tbl d). \<exists>b \<in> set (book_tbl d).
           sid s = i \<and> bid b = sale_bid s \<and> q = sqty s \<and> price = bprice b"
proof -
  from assms have "(q, price) \<in> set (select_qty_price d i)"
    by (auto simp: fetchone_def split: list.splits)
  then show ?thesis by (auto simp: select_qty_price_def)
qed

text \<open>
  Claim C5. Every run of update-sale that prints its success message for a sale and a
  total (whatever the input and the storage failures of that run are) returns normally
  and commits a database that differs from the one before only in the discount and the
  total of the rows with that sale's identifier: the book table, with every stock, the
  member table and every quantity are as before. That sale is the selected one: the
  first line typed is a number within the selection list, and the sale's identifier is
  the one the list shows at that number. The new discount is the integer typed at the
  discount prompt, and the new total is the unit price of the sale's book, as the book
  table holds it now, times the sale's quantity minus that discount. The keys of sales
  and books are taken to be distinct, as the schema demands.
\<close>

theorem update_sale_success:
  assumes run: "update_sale (start d ins fs) = (r, w')"
    and ok: "SaleUpdated i t \<in> set (stdout w')"
    and keys: "distinct (map sid (sale_tbl d))" "distinct (map bid (book_tbl d))"
  shows "\<exists>choice ds rest c nd s b.
           ins = choice # ds # rest \<and>
           py_int choice = Some c \<and> 1 \<le> c \<and> c \<le> int (length (select_list d)) \<and>
           i = fst (select_list d ! nat (c - 1)) \<and>
           py_int ds = Some nd \<and> 0 \<le> nd \<and>
           s \<in> set (sale_tbl d) \<and> sid s = i \<and> b \<in> set (book_tbl d) \<and> bid b = sale_bid s \<and>
           t = bprice b * sqty s - nd \<and>
           r = Inr () \<and>
           db_conn w' = connect_db
             (d\<lparr>sale_tbl := map (\<lambda>x. if sid x = i then x\<lparr>sdiscount := nd, stotal := t\<rparr> else x)
                                (sale_tbl d)\<rparr>) \<and>
           book_tbl (committed (db_conn w')) = book_tbl d \<and>
           member_tbl (committed (db_conn w')) = member_tbl d \<and>
           map sqty (sale_tbl (committed (db_conn w'))) = map sqty (sale_tbl d) \<and>
           (\<forall>s' \<in> set (sale_tbl d). \<forall>b' \<in> set (book_tbl d).
              sid s' = i \<and> bid b' = sale_bid s' \<longrightarrow> t = bprice b' * sqty s' - nd)"
proof -
  from update_sale_cases [OF run ok] obtain choice ds rest c nd q price where
    ins: "ins = choice # ds # rest"
    and sel: "py_int choice = Some c" "1 \<le> c" "c \<le> int (length (select_list d))"
      "i = fst (select_list d ! nat (c - 1))"
    and nd: "py_int ds = Some nd" "0 \<le> nd"
    and row: "fetchone (select_qty_price d i) = Some (q, price)" and t: "t = price * q - nd"
    and r: "r = Inr ()" and db: "db_conn w' = connect_db (set_discount nd t i d)"
    by blast
  from select_qty_price_row [OF row] obtain s b where
    sb: "s \<in> set (sale_tbl d)" "b \<in> set (book_tbl d)" "sid s = i" "bid b = sale_bid s"
      "q = sqty s" "price = bprice b"
    by blast
  have uniq: "t = bprice b' * sqty s' - nd"
    if "s' \<in> set (sale_tbl d)" "b' \<in> set (book_tbl d)" "sid s' = i" "bid b' = sale_bid s'"
    for s' b'
  proof -
    from select_qty_price_unique [OF keys that(1,2,4)] that(3) row
    have "q = sqty s'" "price = bprice b'" by (simp_all add: fetchone_def)
    with t show ?thesis by simp
  qed
  have qty: "map sqty (map (\<lambda>x. if sid x = i then x\<lparr>sdiscount := nd, stotal := t\<rparr> else x) xs)
      = map sqty xs" for xs
    by (induction xs) auto
  have frame: "db_conn w' = connect_db
             (d\<lparr>sale_tbl := map (\<lambda>x. if sid x = i then x\<lparr>sdiscount := nd, stotal := t\<rparr> else x)
                                (sale_tbl d)\<rparr>)"
      "book_tbl (committed (db_conn w')) = book_tbl d"
      "member_tbl (committed (db_conn w')) = member_tbl d"
      "map sqty (sale_tbl (committed (db_conn w'))) = map sqty (sale_tbl d)"
    using db qty by (simp_all add: set_discount_def connect_db_def)
  have total: "t = bprice b * sqty s - nd" using t sb by simp
  have all: "\<forall>s' \<in> set (sale_tbl d). \<forall>b' \<in> set (book_tbl d).
              sid s' = i \<and> bid b' = sale_bid s' \<longrightarrow> t = bprice b' * sqty s' - nd"
    using uniq by blast
  show ?thesis
    apply (rule exI [of _ choice], rule exI [of _ ds], rule exI [of _ rest], rule exI [of _ c],
        rule exI [of _ nd], rule exI [of _ s], rule exI [of _ b])
    using ins sel nd sb(1-4) total r frame all by blast
qed

theorem update_sale_success_witness:
  "update_sale (start two_sales_db [''2'', ''30''] []) =
     (Inr (),
      \<lparr>db_conn = connect_db two_sales_repriced_db, stdin = [],
       stdout = [ListHeader, ListLine 1 1 ''Ann'' ''2024-01-01'',
                 ListLine 2 2 ''Ann'' ''2024-01-02'', ListFooter,
                 Prompt AskUpdateChoice, Prompt AskNewDiscount, SaleUpdated 2 170],
       faults = []\<rparr>) \<and>
   (\<exists>c nd s b. py_int ''2'' = Some c \<and> 1 \<le> c \<and> c \<le> int (length (select_list two_sales_db)) \<and>
      2 = fst (select_list two_sales_db ! nat (c - 1)) \<and>
      py_int ''30'' = Some nd \<and> 0 \<le> nd \<and>
      s \<in> set (sale_tbl two_sales_db) \<and> sid s = 2 \<and>
      b \<in> set (book_tbl two_sales_db) \<and> bid b = sale_bid s \<and>
      170 = bprice b * sqty s - nd)"
proof -
  have run: "update_sale (start two_sales_db [''2'', ''30''] []) =
     (Inr (),
      \<lparr>db_conn = connect_db two_sales_repriced_db, stdin = [],
       stdout = [ListHeader, ListLine 1 1 ''Ann'' ''2024-01-01'',
                 ListLine 2 2 ''Ann'' ''2024-01-02'', ListFooter,
                 Prompt AskUpdateChoice, Prompt AskNewDiscount, SaleUpdated 2 170],
       faults = []\<rparr>)"
    by code_simp
  have ok: "SaleUpdated 2 170 \<in> set (stdout
      \<lparr>db_conn = connect_db two_sales_repriced_db, stdin = [],
       stdout = [ListHeader, ListLine 1 1 ''Ann'' ''2024-01-01'',
                 ListLine 2 2 ''Ann'' ''2024-01-02'', ListFooter,
                 Prompt AskUpdateChoice, Prompt AskNewDiscount, SaleUpdated 2 170],
       faults = []\<rparr>)"
    by simp
  have k1: "distinct (map sid (sale_tbl two_sales_db))" by (simp add: two_sales_db_def)
  have k2: "distinct (map bid (book_tbl two_sales_db))" by (simp add: two_sales_db_def)
  from update_sale_success [OF run ok k1 k2] run show ?thesis by auto
qed

lemma update_sale_tx_missing:
  assumes "select_qty_price d i = []"
  shows "update_sale_tx i nd \<lparr>db_conn = connect_db d, stdin = ins, stdout = out,
                              faults = False # False # fs\<rparr> =
           (Inr (), \<lparr>db_conn = connect_db d, stdin = ins, stdout = out @ [ErrSaleNotFound],
                     faults = fs\<rparr>)"
    and "update_sale_tx i nd \<lparr>db_conn = connect_db d, stdin = ins, stdout = out, faults = []\<rparr> =
           (Inr (), \<lparr>db_conn = connect_db d, stdin = ins, stdout = out @ [ErrSaleNotFound],
                     faults = []\<rparr>)"
  using assms
  by (simp_all add: update_sale_tx_def prog_defs connect_db_def fetchone_def)

text \<open>
  Claim C10. When no row of the sale table carries the selected identifier at the time
  the transaction of update-sale reads it, the transaction prints the not-found error,
  rolls back after two calls into the storage layer (begin and the read; there is no
  commit), and ends with the database as it was and no transaction open. The
  transaction of delete-sale in the same situation prints its success message instead.
\<close>

theorem update_sale_missing_row:
  fixes d :: db
  defines "w \<equiv> \<lambda>ins out fs. \<lparr>db_conn = connect_db d, stdin = ins, stdout = out, faults = fs\<rparr>"
  assumes "\<forall>s \<in> set (sale_tbl d). sid s \<noteq> i"
  shows "update_sale_tx i nd (w ins out []) = (Inr (), w ins (out @ [ErrSaleNotFound]) []) \<and>
         try_except (update_sale_tx i nd) selection_handler (w ins out []) =
           (Inr (), w ins (out @ [ErrSaleNotFound]) []) \<and>
         update_sale_tx i nd (w ins out (False # False # fs)) =
           (Inr (), w ins (out @ [ErrSaleNotFound]) fs) \<and>
         delete_sale_tx i (w ins out []) = (Inr (), w ins (out @ [SaleDeleted i]) [])"
  using update_sale_tx_missing [OF no_sale_no_qty_price [OF assms(2)]]
    delete_sale_tx_missing [OF no_sale_no_bid_qty [OF assms(2)]]
  by (simp add: w_def try_except_def)

theorem update_sale_missing_row_witness:
  "update_sale_tx 5 20 \<lparr>db_conn = connect_db sold_db, stdin = [], stdout = [], faults = []\<rparr> =
     (Inr (), \<lparr>db_conn = connect_db sold_db, stdin = [], stdout = [ErrSaleNotFound],
               faults = []\<rparr>)"
proof -
  have "\<forall>s \<in> set (sale_tbl sold_db). sid s \<noteq> 5" by (simp add: sold_db_def)
  from update_sale_missing_row [OF this, of 20 "[]" "[]"] show ?thesis by simp
qed

section \<open>Storage failures inside a transaction\<close>

lemma add_sale_storage_error:
  assumes "validate_date sd"
    and "get_member_name d m = Inr (Some name)" and "name \<noteq> []"
    and "get_book_info d b = Inr (Some (title, price, stock))"
    and "py_int qs = Some q" and "0 < q" and "q \<le> stock"
    and "py_int ds = Some dsc" and "0 \<le> dsc"
    and "sqlite_int q" and "sqlite_int dsc" and "sqlite_int (price * q - dsc)"
    and "fs0 \<in> set [[True], [False, True], [False, False, True]]"
  shows "add_sale \<lparr>db_conn = connect_db d, stdin = sd # m # b # qs # ds # rest, stdout = out,
                    faults = False # False # False # fs0 @ fs\<rparr> =
           (Inr (),
            \<lparr>db_conn = connect_db d, stdin = rest,
             stdout = out @ [Prompt AskDate, Prompt AskMember, Prompt AskBook, Prompt AskQty,
                             Prompt AskDiscount, DbError OperationalError],
             faults = fs\<rparr>)"
  using assms
  by (auto simp: add_sale_def add_sale_body_def add_sale_tx_def execute_bound_def prog_defs
      connect_db_def truthy_def is_sqlite_error_def)

lemma update_sale_storage_error:
  assumes "py_int choice = Some c" and "1 \<le> c" and "c \<le> int (length (select_list d))"
    and "py_int ds = Some nd" and "0 \<le> nd"
    and "fetchone (select_qty_price d (fst (select_list d ! nat (c - 1)))) = Some (q, price)"
    and "sqlite_int nd" and "sqlite_int (price * q - nd)"
    and "fs0 \<in> set [[True], [False, True], [False, False, True]]"
  shows "update_sale \<lparr>db_conn = connect_db d, stdin = choice # ds # rest, stdout = out,
                       faults = False # False # fs0 @ fs\<rparr> =
           (Inr (),
            \<lparr>db_conn = connect_db d, stdin = rest,
             stdout = out @ ListHeader # list_lines (select_list d) @
                       [ListFooter, Prompt AskUpdateChoice, Prompt AskNewDiscount,
                        DbError OperationalError],
             faults = fs\<rparr>)"
proof -
  have ne: "choice \<noteq> []" using assms(1) by (rule py_int_nonempty)
  have sl: "select_list d \<noteq> []" using assms(2,3) by auto
  show ?thesis
    using assms ne sl
    by (auto simp: update_sale_def update_sale_body_def update_sale_tx_def execute_bound_def
        list_sales_def print_selection_run selection_handler_def prog_defs connect_db_def
        is_sqlite_error_def)
qed

lemma listed_sale_exists:
  assumes "n < length (select_list d)"
  shows "\<exists>b q. fetchone (select_bid_qty d (fst (select_list d ! n))) = Some (b, q)"
proof -
  have "select_list d ! n \<in> set (select_list d)" using assms by simp
  then obtain s where s: "s \<in> set (sale_tbl d)" "sid s = fst (select_list d ! n)"
    by (auto simp: select_list_def)
  then have "(sale_bid s, sqty s) \<in> set (select_bid_qty d (fst (select_list d ! n)))"
    by (auto simp: select_bid_qty_def)
  then show ?thesis by (cases "select_bid_qty d (fst (select_list d ! n))") (auto simp: fetchone_def)
qed

lemma delete_sale_storage_error:
  assumes "py_int choice = Some c" and "1 \<le> c" and "c \<le> int (length (select_list d))"
    and "py_lower confirm = ''y''"
    and "fs0 \<in> set [[True], [False, True], [False, False, True], [False, False, False, True]]"
  shows "delete_sale \<lparr>db_conn = connect_db d, stdin = choice # confirm # rest, stdout = out,
                       faults = False # False # fs0 @ fs\<rparr> =
           (Inr (),
            \<lparr>db_conn = connect_db d, stdin = rest,
             stdout = out @ ListHeader # list_lines (select_list d) @
                       [ListFooter, Prompt AskDeleteChoice,
                        Prompt (AskConfirm (fst (select_list d ! nat (c - 1)))),
                        DbError OperationalError],
             faults = fs\<rparr>)"
proof -
  have ne: "choice \<noteq> []" using assms(1) by (rule py_int_nonempty)
  have sl: "select_list d \<noteq> []" using assms(2,3) by auto
  have "nat (c - 1) < length (select_list d)" using assms(2,3) by auto
  from listed_sale_exists [OF this] obtain b q where
    row: "fetchone (select_bid_qty d (fst (select_list d ! nat (c - 1)))) = Some (b, q)"
    by blast
  show ?thesis
    using assms ne sl row
    by (auto simp: delete_sale_def delete_sale_body_def delete_sale_tx_def list_sales_def
        print_selection_run selection_handler_def prog_defs connect_db_def is_sqlite_error_def)
qed

lemma py_strip_digit:
  "py_strip ''1'' = ''1''" "py_strip ''3'' = ''3''" "py_strip ''4'' = ''4''"
  by (simp_all add: py_strip_def is_str_space_def is_space_def)

lemma main_loop_continues:
  "menu_round w = (Inr True, w') \<Longrightarrow> main_loop w = main_loop w'"
  by (subst main_loop.simps) simp


lemma menu_add_sale_storage_error:
  assumes "validate_date sd"
    and "get_member_name d m = Inr (Some name)" and "name \<noteq> []"
    and "get_book_info d b = Inr (Some (title, price, stock))"
    and "py_int qs = Some q" and "0 < q" and "q \<le> stock"
    and "py_int ds = Some dsc" and "0 \<le> dsc"
    and "sqlite_int q" and "sqlite_int dsc" and "sqlite_int (price * q - dsc)"
    and "fs0 \<in> set [[True], [False, True], [False, False, True]]"
  shows "menu_round (start d (''1'' # sd # m # b # qs # ds # rest)
                      (False # False # False # fs0 @ fs)) =
           (Inr True,
            \<lparr>db_conn = connect_db d, stdin = rest,
             stdout = [Menu, Prompt AskMenu, Prompt AskDate, Prompt AskMember, Prompt AskBook,
                       Prompt AskQty, Prompt AskDiscount, DbError OperationalError],
             faults = fs\<rparr>)"
  using add_sale_storage_error [OF assms, of rest "[Menu, Prompt AskMenu]" fs]
  by (simp add: menu_round_def bnd_def print_def input_def ret_def start_def py_strip_digit)

lemma menu_update_sale_storage_error:
  assumes "py_int choice = Some c" and "1 \<le> c" and "c \<le> int (length (select_list d))"
    and "py_int ds = Some nd" and "0 \<le> nd"
    and "fetchone (select_qty_price d (fst (select_list d ! nat (c - 1)))) = Some (q, price)"
    and "sqlite_int nd" and "sqlite_int (price * q - nd)"
    and "fs0 \<in> set [[True], [False, True], [False, False, True]]"
  shows "menu_round (start d (''3'' # choice # ds # rest) (False # False # fs0 @ fs)) =
           (Inr True,
            \<lparr>db_conn = connect_db d, stdin = rest,
             stdout = Menu # Prompt AskMenu # ListHeader # list_lines (select_list d) @
                       [ListFooter, Prompt AskUpdateChoice, Prompt AskNewDiscount,
                        DbError OperationalError],
             faults = fs\<rparr>)"
  using update_sale_storage_error [OF assms, of rest "[Menu, Prompt AskMenu]" fs]
  by (simp add: menu_round_def bnd_def print_def input_def ret_def start_def py_strip_digit)

lemma menu_delete_sale_storage_error:
  assumes "py_int choice = Some c" and "1 \<le> c" and "c \<le> int (length (select_list d))"
    and "py_lower confirm = ''y''"
    and "fs0 \<in> set [[True], [False, True], [False, False, True], [False, False, False, True]]"
  shows "menu_round (start d (''4'' # choice # confirm # rest) (False # False # fs0 @ fs)) =
           (Inr True,
            \<lparr>db_conn = connect_db d, stdin = rest,
             stdout = Menu # Prompt AskMenu # ListHeader # list_lines (select_list d) @
                       [ListFooter, Prompt AskDeleteChoice,
                        Prompt (AskConfirm (fst (select_list d ! nat (c - 1)))),
                        DbError OperationalError],
             faults = fs\<rparr>)"
  using delete_sale_storage_error [OF assms, of rest "[Menu, Prompt AskMenu]" fs]
  by (simp add: menu_round_def bnd_def print_def input_def ret_def start_def py_strip_digit)

text \<open>
  When a create, update or delete operation has begun its transaction and the storage
  layer then raises a \<^verbatim>\<open>sqlite3.Error\<close> at one of the statements that follow or at
  the commit (create: insert, stock update, commit; update: read, update, commit;
  delete: read, stock update, delete, commit), the operation rolls back: the connection
  holds the database as it was before the operation, committed and uncommitted alike,
  with no transaction open; the database-error message is the last output; and the
  round of the menu ends normally with the loop going on from that state. For create
  and update the typed and computed integers are taken to be within the 64-bit range.
\<close>

lemma storage_error_rolls_back_in_range:
  fixes d :: db
  defines "after \<equiv> \<lambda>rest out fs.
     \<lparr>db_conn = connect_db d, stdin = rest,
      stdout = Menu # Prompt AskMenu # out @ [DbError OperationalError], faults = fs\<rparr>"
  shows
    "(validate_date sd \<and> get_member_name d m = Inr (Some name) \<and> name \<noteq> [] \<and>
      get_book_info d b = Inr (Some (title, price, stock)) \<and>
      py_int qs = Some q \<and> 0 < q \<and> q \<le> stock \<and> py_int ds = Some dsc \<and> 0 \<le> dsc \<and>
      sqlite_int q \<and> sqlite_int dsc \<and> sqlite_int (price * q - dsc) \<and>
      fa \<in> set [[True], [False, True], [False, False, True]] \<longrightarrow>
        menu_round (start d (''1'' # sd # m # b # qs # ds # rest)
                     (False # False # False # fa @ fs)) =
          (Inr True,
           after rest [Prompt AskDate, Prompt AskMember, Prompt AskBook, Prompt AskQty,
                       Prompt AskDiscount] fs) \<and>
        main_loop (start d (''1'' # sd # m # b # qs # ds # rest)
                     (False # False # False # fa @ fs)) =
          main_loop (after rest [Prompt AskDate, Prompt AskMember, Prompt AskBook, Prompt AskQty,
                                 Prompt AskDiscount] fs)) \<and>
     (py_int choice = Some c \<and> 1 \<le> c \<and> c \<le> int (length (select_list d)) \<and>
      py_int nds = Some nd \<and> 0 \<le> nd \<and>
      fetchone (select_qty_price d (fst (select_list d ! nat (c - 1)))) = Some (uq, uprice) \<and>
      sqlite_int nd \<and> sqlite_int (uprice * uq - nd) \<and>
      fu \<in> set [[True], [False, True], [False, False, True]] \<longrightarrow>
        menu_round (start d (''3'' # choice # nds # rest) (False # False # fu @ fs)) =
          (Inr True,
           after rest (ListHeader # list_lines (select_list d) @
                         [ListFooter, Prompt AskUpdateChoice, Prompt AskNewDiscount]) fs) \<and>
        main_loop (start d (''3'' # choice # nds # rest) (False # False # fu @ fs)) =
          main_loop (after rest (ListHeader # list_lines (select_list d) @
                         [ListFooter, Prompt AskUpdateChoice, Prompt AskNewDiscount]) fs)) \<and>
     (py_int choice = Some c \<and> 1 \<le> c \<and> c \<le> int (length (select_list d)) \<and>
      py_lower confirm = ''y'' \<and>
      fd \<in> set [[True], [False, True], [False, False, True], [False, False, False, True]] \<longrightarrow>
        menu_round (start d (''4'' # choice # confirm # rest) (False # False # fd @ fs)) =
          (Inr True,
           after rest (ListHeader # list_lines (select_list d) @
                         [ListFooter, Prompt AskDeleteChoice,
                          Prompt (AskConfirm (fst (select_list d ! nat (c - 1))))]) fs) \<and>
        main_loop (start d (''4'' # choice # confirm # rest) (False # False # fd @ fs)) =
          main_loop (after rest (ListHeader # list_lines (select_list d) @
                         [ListFooter, Prompt AskDeleteChoice,
                          Prompt (AskConfirm (fst (select_list d ! nat (c - 1))))]) fs))"
proof (intro conjI impI)
  assume h: "validate_date sd \<and> get_member_name d m = Inr (Some name) \<and> name \<noteq> [] \<and>
      get_book_info d b = Inr (Some (title, price, stock)) \<and>
      py_int qs = Some q \<and> 0 < q \<and> q \<le> stock \<and> py_int ds = Some dsc \<and> 0 \<le> dsc \<and>
      sqlite_int q \<and> sqlite_int dsc \<and> sqlite_int (price * q - dsc) \<and>
      fa \<in> set [[True], [False, True], [False, False, True]]"
  then have 1: "menu_round (start d (''1'' # sd # m # b # qs # ds # rest)
                     (False # False # False # fa @ fs)) =
          (Inr True,
           after rest [Prompt AskDate, Prompt AskMember, Prompt AskBook, Prompt AskQty,
                       Prompt AskDiscount] fs)"
    using menu_add_sale_storage_error [of sd d m name b title price stock qs q ds dsc fa rest fs]
    by (simp add: after_def)
  then show "menu_round (start d (''1'' # sd # m # b # qs # ds # rest)
                     (False # False # False # fa @ fs)) =
          (Inr True,
           after rest [Prompt AskDate, Prompt AskMember, Prompt AskBook, Prompt AskQty,
                       Prompt AskDiscount] fs)" .
  from 1 show "main_loop (start d (''1'' # sd # m # b # qs # ds # rest)
                     (False # False # False # fa @ fs)) =
          main_loop (after rest [Prompt AskDate, Prompt AskMember, Prompt AskBook, Prompt AskQty,
                                 Prompt AskDiscount] fs)"
    by (rule main_loop_continues)
next
  assume h: "py_int choice = Some c \<and> 1 \<le> c \<and> c \<le> int (length (select_list d)) \<and>
      py_int nds = Some nd \<and> 0 \<le> nd \<and>
      fetchone (select_qty_price d (fst (select_list d ! nat (c - 1)))) = Some (uq, uprice) \<and>
      sqlite_int nd \<and> sqlite_int (uprice * uq - nd) \<and>
      fu \<in> set [[True], [False, True], [False, False, True]]"
  then have 3: "menu_round (start d (''3'' # choice # nds # rest) (False # False # fu @ fs)) =
          (Inr True,
           after rest (ListHeader # list_lines (select_list d) @
                         [ListFooter, Prompt AskUpdateChoice, Prompt AskNewDiscount]) fs)"
    using menu_update_sale_storage_error [of choice c d nds nd uq uprice fu rest fs]
    by (simp add: after_def)
  then show "menu_round (start d (''3'' # choice # nds # rest) (False # False # fu @ fs)) =
          (Inr True,
           after rest (ListHeader # list_lines (select_list d) @
                         [ListFooter, Prompt AskUpdateChoice, Prompt AskNewDiscount]) fs)" .
  from 3 show "main_loop (start d (''3'' # choice # nds # rest) (False # False # fu @ fs)) =
          main_loop (after rest (ListHeader # list_lines (select_list d) @
                         [ListFooter, Prompt AskUpdateChoice, Prompt AskNewDiscount]) fs)"
    by (rule main_loop_continues)
next
  assume h: "py_int choice = Some c \<and> 1 \<le> c \<and> c \<le> int (length (select_list d)) \<and>
      py_lower confirm = ''y'' \<and>
      fd \<in> set [[True], [False, True], [False, False, True], [False, False, False, True]]"
  then have 4: "menu_round (start d (''4'' # choice # confirm # rest) (False # False # fd @ fs)) =
          (Inr True,
           after rest (ListHeader # list_lines (select_list d) @
                         [ListFooter, Prompt AskDeleteChoice,
                          Prompt (AskConfirm (fst (select_list d ! nat (c - 1))))]) fs)"
    using menu_delete_sale_storage_error [of choice c d confirm fd rest fs]
    by (simp add: after_def)
  then show "menu_round (start d (''4'' # choice # confirm # rest) (False # False # fd @ fs)) =
          (Inr True,
           after rest (ListHeader # list_lines (select_list d) @
                         [ListFooter, Prompt AskDeleteChoice,
                          Prompt (AskConfirm (fst (select_list d ! nat (c - 1))))]) fs)" .
  from 4 show "main_loop (start d (''4'' # choice # confirm # rest) (False # False # fd @ fs)) =
          main_loop (after rest (ListHeader # list_lines (select_list d) @
                         [ListFooter, Prompt AskDeleteChoice,
                          Prompt (AskConfirm (fst (select_list d ! nat (c - 1))))]) fs)"
    by (rule main_loop_continues)
qed

lemma storage_error_rolls_back_example:
  "menu_round (start sample_db [''1'', ''2024-01-01'', ''M1'', ''7'', ''3'', ''50'']
                 [False, False, False, False, True]) =
     (Inr True,
      \<lparr>db_conn = connect_db sample_db, stdin = [],
       stdout = [Menu, Prompt AskMenu, Prompt AskDate, Prompt AskMember, Prompt AskBook,
                 Prompt AskQty, Prompt AskDiscount, DbError OperationalError],
       faults = []\<rparr>) \<and>
   menu_round (start sold_db [''4'', ''1'', ''y''] [False, False, False, False, True]) =
     (Inr True,
      \<lparr>db_conn = connect_db sold_db, stdin = [],
       stdout = [Menu, Prompt AskMenu, ListHeader, ListLine 1 1 ''Ann'' ''2024-01-01'',
                 ListFooter, Prompt AskDeleteChoice, Prompt (AskConfirm 1),
                 DbError OperationalError],
       faults = []\<rparr>)"
proof -
  have a: "validate_date ''2024-01-01'' \<and>
      get_member_name sample_db ''M1'' = Inr (Some ''Ann'') \<and> ''Ann'' \<noteq> [] \<and>
      get_book_info sample_db ''7'' = Inr (Some (''Sets'', 100, 10)) \<and>
      py_int ''3'' = Some 3 \<and> (0::int) < 3 \<and> (3::int) \<le> 10 \<and>
      py_int ''50'' = Some 50 \<and> (0::int) \<le> 50 \<and>
      sqlite_int 3 \<and> sqlite_int 50 \<and> sqlite_int (100 * 3 - 50) \<and>
      [False, True] \<in> set [[True], [False, True], [False, False, True]]"
    by code_simp
  have b: "py_int ''1'' = Some 1 \<and> (1::int) \<le> 1 \<and> 1 \<le> int (length (select_list sold_db)) \<and>
      py_lower ''y'' = ''y'' \<and>
      [False, False, True] \<in>
        set [[True], [False, True], [False, False, True], [False, False, False, True]]"
    by code_simp
  have c: "list_lines (select_list sold_db) = [ListLine 1 1 ''Ann'' ''2024-01-01'']"
    "fst (select_list sold_db ! nat (1 - 1)) = 1"
    by code_simp+
  note create = storage_error_rolls_back_in_range [where d = sample_db and sd = "''2024-01-01''"
      and m = "''M1''" and name = "''Ann''" and b = "''7''" and title = "''Sets''"
      and price = 100 and stock = 10 and qs = "''3''" and q = 3 and ds = "''50''" and dsc = 50
      and fa = "[False, True]" and rest = "[]" and fs = "[]"]
  note delete = storage_error_rolls_back_in_range [where d = sold_db and choice = "''1''" and c = 1
      and confirm = "''y''" and fd = "[False, False, True]" and rest = "[]" and fs = "[]"]
  from create [THEN conjunct1] a delete [THEN conjunct2, THEN conjunct2] b c
  show ?thesis by simp
qed

section \<open>Integers outside the range of the store\<close>

text \<open>
  A typed discount, or a total computed from it, outside the 64-bit range makes the
  write raise \<^verbatim>\<open>OverflowError\<close> after the transaction has begun. Create-sale
  catches it, rolls back, reports it and returns. Update-sale has no clause for it: the
  exception leaves the function with the transaction still open.
\<close>

lemma add_sale_overflow:
  assumes "validate_date sd"
    and "get_member_name d m = Inr (Some name)" and "name \<noteq> []"
    and "get_book_info d b = Inr (Some (title, price, stock))"
    and "py_int qs = Some q" and "0 < q" and "q \<le> stock"
    and "py_int ds = Some dsc" and "0 \<le> dsc"
    and "\<not> (sqlite_int q \<and> sqlite_int dsc \<and> sqlite_int (price * q - dsc))"
  shows "add_sale \<lparr>db_conn = connect_db d, stdin = sd # m # b # qs # ds # rest, stdout = out,
                    faults = []\<rparr> =
           (Inr (),
            \<lparr>db_conn = connect_db d, stdin = rest,
             stdout = out @ [Prompt AskDate, Prompt AskMember, Prompt AskBook, Prompt AskQty,
                             Prompt AskDiscount, OtherError OverflowError],
             faults = []\<rparr>)"
  using assms
  by (auto simp: add_sale_def add_sale_body_def add_sale_tx_def execute_bound_def prog_defs
      connect_db_def truthy_def is_sqlite_error_def)

lemma update_sale_overflow:
  assumes "py_int choice = Some c" and "1 \<le> c" and "c \<le> int (length (select_list d))"
    and "py_int ds = Some nd" and "0 \<le> nd"
    and "fetchone (select_qty_price d (fst (select_list d ! nat (c - 1)))) = Some (q, price)"
    and "\<not> (sqlite_int nd \<and> sqlite_int (price * q - nd))"
  shows "update_sale \<lparr>db_conn = connect_db d, stdin = choice # ds # rest, stdout = out,
                       faults = []\<rparr> =
           (Inl OverflowError,
            \<lparr>db_conn = \<lparr>committed = d, working = d, in_tx = True\<rparr>, stdin = rest,
             stdout = out @ ListHeader # list_lines (select_list d) @
                       [ListFooter, Prompt AskUpdateChoice, Prompt AskNewDiscount],
             faults = []\<rparr>)"
proof -
  have ne: "choice \<noteq> []" using assms(1) by (rule py_int_nonempty)
  have sl: "select_list d \<noteq> []" using assms(2,3) by auto
  show ?thesis
    using assms ne sl
    by (auto simp: update_sale_def update_sale_body_def update_sale_tx_def execute_bound_def
        list_sales_def print_selection_run selection_handler_def prog_defs connect_db_def
        is_sqlite_error_def)
qed

text \<open>
  Claim C7, at an input where the code departs from it. The shop holds one sale; the
  user chooses update, selects the sale and types the discount 9223372036854775808,
  which is 2 to the power 63. The transaction begins, the read succeeds, and the
  update statement raises \<^verbatim>\<open>OverflowError\<close> when its parameters are bound. No
  \<^verbatim>\<open>except\<close> clause of update-sale catches it: the round of the menu ends with the
  exception and the transaction open, the loop does not go on, and the program reports
  the error, rolls back at the end of its connection block and ends with the next menu
  choice unread. The same discount typed into create-sale is caught there: the round
  ends normally and the loop goes on.
\<close>

theorem update_sale_overflow_ends_loop:
  "py_int ''9223372036854775808'' = Some (2 ^ 63) \<and>
   menu_round (start sold_db [''3'', ''1'', ''9223372036854775808'', ''2''] []) =
     (Inl OverflowError,
      \<lparr>db_conn = \<lparr>committed = sold_db, working = sold_db, in_tx = True\<rparr>,
       stdin = [''2''],
       stdout = [Menu, Prompt AskMenu, ListHeader, ListLine 1 1 ''Ann'' ''2024-01-01'',
                 ListFooter, Prompt AskUpdateChoice, Prompt AskNewDiscount],
       faults = []\<rparr>) \<and>
   main (start sold_db [''3'', ''1'', ''9223372036854775808'', ''2''] []) =
     (Inr (),
      \<lparr>db_conn = connect_db sold_db, stdin = [''2''],
       stdout = [Menu, Prompt AskMenu, ListHeader, ListLine 1 1 ''Ann'' ''2024-01-01'',
                 ListFooter, Prompt AskUpdateChoice, Prompt AskNewDiscount,
                 OtherError OverflowError, ProgramEnd],
       faults = []\<rparr>) \<and>
   menu_round (start sample_db
       [''1'', ''2024-01-01'', ''M1'', ''7'', ''3'', ''9223372036854775808'', ''2''] []) =
     (Inr True,
      \<lparr>db_conn = connect_db sample_db, stdin = [''2''],
       stdout = [Menu, Prompt AskMenu, Prompt AskDate, Prompt AskMember, Prompt AskBook,
                 Prompt AskQty, Prompt AskDiscount, OtherError OverflowError],
       faults = []\<rparr>)"
  by code_simp

end
